theory Spec2Isabelle
  imports Complex_Main "HOL-Library.Multiset"
begin

section \<open>Rider order and income services\<close>

text \<open>
  A shallow embedding of \<^verbatim>\<open>services/data.store.js\<close>, \<^verbatim>\<open>services/orders.service.js\<close>,
  \<^verbatim>\<open>services/income.service.js\<close>, of the withdrawal validator of
  \<^verbatim>\<open>validators/income.validators.js\<close> and of the withdrawal handler of
  \<^verbatim>\<open>controllers/income.controller.js\<close>.

  Conventions of the embedding:
  \<^item> The type of JavaScript numbers is a type variable \<open>'n\<close>. Its \<open>+\<close>, \<open>-\<close>,
    \<open>0\<close>, \<open>\<le>\<close> and \<open><\<close> are those of the classes \<open>plus\<close>, \<open>minus\<close>, \<open>zero\<close> and
    \<open>ord\<close>, which state no law, and what else the code does with numbers is a record of
    operations (\<open>number_ops\<close>) that every function computing with them takes. The general
    theorems assume nothing about any of these, so they hold of IEEE doubles with their
    rounding. A value that is no number (\<^verbatim>\<open>NaN\<close>) is outside the model.
  \<^item> An ISO-8601 time string is the number of milliseconds since the epoch that
    \<^verbatim>\<open>new Date(s)\<close> gives (\<open>timestamp\<close>). The strings are taken in the form
    \<^verbatim>\<open>toISOString()\<close> writes them, so that the ten-character date prefix of a string is
    the UTC day number of its timestamp. Every \<^verbatim>\<open>new Date()\<close> and \<^verbatim>\<open>Date.now()\<close>
    of one call reads the same clock value \<open>now\<close>, an argument of the function.
  \<^item> Statuses are strings, as in the source.
  \<^item> The two JSON files and the in-memory cache of the DataStore singleton are the state,
    passed in and returned. The KPI log is written but never read by these services and is
    left out, as is the constant \<^verbatim>\<open>riderId\<close> of the stored documents.
  \<^item> A file that parses holds a document of the shape given below: the income file an
    object with its array of withdrawals and its running total; the orders file an object
    whose \<^verbatim>\<open>orders\<close>, if present, is an array of orders, or a value that is no
    object, \<^verbatim>\<open>null\<close> among them.
  \<^item> An exception is a value: a function that can throw returns a sum, with the thrown
    error on the left.
\<close>

subsection \<open>Numbers and time\<close>

text \<open>
  The operations on numbers besides the arithmetic: \<open>toFixed2 x\<close> is
  \<^verbatim>\<open>parseFloat(x.toFixed(2))\<close>, \<open>literal i\<close> is the number an integer literal denotes, and
  \<open>toString x\<close> is \<^verbatim>\<open>x.toString()\<close>.
\<close>

record 'n number_ops =
  toFixed2 :: "'n \<Rightarrow> 'n"
  literal :: "int \<Rightarrow> 'n"
  toString :: "'n \<Rightarrow> string"

type_synonym timestamp = int

definition day_ms :: int where
  "day_ms = 24 * 60 * 60 * 1000"

text \<open>The \<^verbatim>\<open>YYYY-MM-DD\<close> prefix of \<^verbatim>\<open>toISOString()\<close>, as a day number.\<close>

definition iso_date :: "timestamp \<Rightarrow> int" where
  "iso_date t = t div day_ms"

subsection \<open>Documents\<close>

text \<open>
  An order, with the fields these services read. Every order has its \<^verbatim>\<open>createdAt\<close>;
  \<^verbatim>\<open>deliveredAt\<close> is absent until the order is delivered, and \<open>None\<close> for
  \<^verbatim>\<open>deliveryFee\<close> is an absent or null fee.
\<close>

record 'n order =
  orderId :: string
  status :: string
  deliveryFee :: "'n option"
  createdAt :: timestamp
  deliveredAt :: "timestamp option"

text \<open>
  An object parsed from \<^verbatim>\<open>rider.orders.json\<close>; \<open>None\<close> is an object without the key
  \<^verbatim>\<open>orders\<close>, which otherwise holds an array of orders.
\<close>

record 'n orders_doc =
  orders :: "'n order list option"

text \<open>
  What \<^verbatim>\<open>JSON.parse\<close> may give for that file: \<^verbatim>\<open>null\<close>; another value that counts as
  false (\<^verbatim>\<open>0\<close>, \<^verbatim>\<open>false\<close>, the empty string), which has no properties; or an object. Any
  other value has no property \<^verbatim>\<open>orders\<close> either and counts as true, as an object
  without the key does.
\<close>

datatype 'd json = JsonNull | JsonFalsy | JsonObject 'd

definition json_truthy :: "'d json \<Rightarrow> bool" where
  "json_truthy v = (case v of JsonObject d \<Rightarrow> True | _ \<Rightarrow> False)"

record 'n withdrawal =
  withdrawalId :: string
  amount :: 'n
  accountInfo :: string
  w_status :: string
  requestedAt :: timestamp
  processedAt :: "timestamp option"
  w_notes :: string

text \<open>
  The document of \<^verbatim>\<open>rider.income.json\<close>, an object with its array of withdrawals and
  its running total. Its \<^verbatim>\<open>riderId\<close> and \<^verbatim>\<open>availableBalance\<close>, which no service reads,
  are left out.
\<close>

record 'n income_doc =
  withdrawals :: "'n withdrawal list"
  totalWithdrawn :: 'n
  lastUpdated :: timestamp

text \<open>An object counts as true.\<close>

definition object_truthy :: "'d \<Rightarrow> bool" where
  "object_truthy d = True"

subsection \<open>DataStore\<close>

text \<open>
  One file of the data directory with its cache entry. \<open>Unreadable\<close> is a file on which
  \<^verbatim>\<open>readFileSync\<close> or \<^verbatim>\<open>JSON.parse\<close> throws.
\<close>

datatype 'd json_file = Missing | Unreadable | Content 'd

record 'd slot =
  cache :: "'d option"
  disk :: "'d json_file"

datatype io_error = ReadFailed | WriteFailed

text \<open>\<^verbatim>\<open>if (this.cache[filename])\<close>: there is an entry and it counts as true.\<close>

definition cache_hit :: "('d \<Rightarrow> bool) \<Rightarrow> 'd slot \<Rightarrow> bool" where
  "cache_hit truthy s = (case cache s of None \<Rightarrow> False | Some d \<Rightarrow> truthy d)"

text \<open>
  The body of the \<^verbatim>\<open>try\<close> block of \<^verbatim>\<open>DataStore.read\<close>; \<open>truthy\<close> tells which values
  of the document type count as true.
\<close>

definition DataStore_read_try ::
  "('d \<Rightarrow> bool) \<Rightarrow> 'd slot \<Rightarrow> 'd \<Rightarrow> io_error + ('d \<times> 'd slot)" where
  "DataStore_read_try truthy s defaultValue =
     (if cache_hit truthy s then Inr (the (cache s), s)
      else
        (case disk s of
           Missing \<Rightarrow> Inr (defaultValue, s)
         | Unreadable \<Rightarrow> Inl ReadFailed
         | Content d \<Rightarrow> Inr (d, s\<lparr>cache := Some d\<rparr>)))"

text \<open>\<^verbatim>\<open>DataStore.read\<close>: the \<^verbatim>\<open>catch\<close> logs the error and returns the default.\<close>

definition DataStore_read :: "('d \<Rightarrow> bool) \<Rightarrow> 'd slot \<Rightarrow> 'd \<Rightarrow> 'd \<times> 'd slot" where
  "DataStore_read truthy s defaultValue =
     (case DataStore_read_try truthy s defaultValue of
        Inl e \<Rightarrow> (defaultValue, s)
      | Inr r \<Rightarrow> r)"

text \<open>
  \<^verbatim>\<open>DataStore.write\<close>; \<open>fs_ok\<close> tells whether \<^verbatim>\<open>writeFileSync\<close> succeeds. A failed
  write leaves file and cache entry as they were and returns \<^verbatim>\<open>false\<close>.
\<close>

definition DataStore_write_try :: "bool \<Rightarrow> 'd slot \<Rightarrow> 'd \<Rightarrow> io_error + 'd slot" where
  "DataStore_write_try fs_ok s d =
     (if fs_ok then Inr \<lparr>cache = Some d, disk = Content d\<rparr> else Inl WriteFailed)"

definition DataStore_write :: "bool \<Rightarrow> 'd slot \<Rightarrow> 'd \<Rightarrow> bool \<times> 'd slot" where
  "DataStore_write fs_ok s d =
     (case DataStore_write_try fs_ok s d of
        Inl e \<Rightarrow> (False, s)
      | Inr s' \<Rightarrow> (True, s'))"

text \<open>
  \<^verbatim>\<open>read\<close> hands out the cached object itself. After a \<^verbatim>\<open>read\<close> the object handed out
  is the cached one exactly when the cache holds an entry that counts as true; otherwise it
  was the fresh default. So an update in place of the object that was read is an update of
  the cache entry in the first case, and of nothing that is kept in the second.
\<close>

definition update_in_place :: "('d \<Rightarrow> bool) \<Rightarrow> 'd slot \<Rightarrow> 'd \<Rightarrow> 'd slot" where
  "update_in_place truthy s d' = (if cache_hit truthy s then s\<lparr>cache := Some d'\<rparr> else s)"

record 'n DataStore =
  rider_orders_json :: "'n orders_doc json slot"
  rider_income_json :: "'n income_doc slot"

text \<open>
  What the services throw: the \<^verbatim>\<open>TypeError\<close> of reading a property of \<^verbatim>\<open>null\<close>, and the
  two errors of \<^verbatim>\<open>submitWithdrawal\<close>, told apart by their messages
  \<^verbatim>\<open>Withdrawal amount must be greater than 0\<close> and \<^verbatim>\<open>Insufficient balance for withdrawal\<close>.
\<close>

datatype thrown = TypeError | InvalidAmount | InsufficientBalance

subsection \<open>OrdersService\<close>

text \<open>
  \<^verbatim>\<open>getAllOrders\<close>: \<^verbatim>\<open>data.orders || []\<close>. Reading \<^verbatim>\<open>orders\<close> of \<^verbatim>\<open>null\<close> throws; of any
  other value without the property it gives \<^verbatim>\<open>undefined\<close>, hence the empty array.
\<close>

definition getAllOrders :: "'n DataStore \<Rightarrow> (thrown + 'n order list) \<times> 'n DataStore" where
  "getAllOrders st =
     (let (data, sl) = DataStore_read json_truthy (rider_orders_json st)
                         (JsonObject \<lparr>orders = Some []\<rparr>);
          st1 = st\<lparr>rider_orders_json := sl\<rparr>
      in case data of
           JsonNull \<Rightarrow> (Inl TypeError, st1)
         | JsonFalsy \<Rightarrow> (Inr [], st1)
         | JsonObject d \<Rightarrow> (Inr (case orders d of None \<Rightarrow> [] | Some os \<Rightarrow> os), st1))"

subsection \<open>IncomeService\<close>

definition getIncomeData :: "timestamp \<Rightarrow> 'n::zero DataStore \<Rightarrow> 'n income_doc \<times> 'n DataStore" where
  "getIncomeData now st =
     (let (data, sl) = DataStore_read object_truthy (rider_income_json st)
                         \<lparr>withdrawals = [], totalWithdrawn = 0, lastUpdated = now\<rparr>
      in (data, st\<lparr>rider_income_json := sl\<rparr>))"

definition getPendingWithdrawalsCount ::
  "timestamp \<Rightarrow> 'n::zero DataStore \<Rightarrow> nat \<times> 'n DataStore" where
  "getPendingWithdrawalsCount now st =
     (let (incomeData, st1) = getIncomeData now st
      in (length (filter (\<lambda>w. w_status w = ''pending'') (withdrawals incomeData)), st1))"

text \<open>\<^verbatim>\<open>order.deliveryFee || 0\<close>\<close>

definition fee :: "'n::zero order \<Rightarrow> 'n" where
  "fee order = (case deliveryFee order of None \<Rightarrow> 0 | Some f \<Rightarrow> f)"

text \<open>\<^verbatim>\<open>order.deliveredAt || order.createdAt\<close>\<close>

definition effectiveDate :: "'n order \<Rightarrow> timestamp" where
  "effectiveDate order = (case deliveredAt order of None \<Rightarrow> createdAt order | Some t \<Rightarrow> t)"

record 'n income_sums =
  sum_total :: 'n
  sum_today :: 'n
  sum_week :: 'n
  sum_month :: 'n

text \<open>The body of the \<^verbatim>\<open>forEach\<close> of \<^verbatim>\<open>getRealTimeIncome\<close>.\<close>

definition income_step ::
  "timestamp \<Rightarrow> 'n::{plus,zero} income_sums \<Rightarrow> 'n order \<Rightarrow> 'n income_sums" where
  "income_step now acc order =
     (if status order = ''delivered'' then
        (let earnings = fee order;
             orderDate = effectiveDate order;
             weekAgo = now - 7 * day_ms;
             monthAgo = now - 30 * day_ms
         in \<lparr>sum_total = sum_total acc + earnings,
             sum_today = (if (case deliveredAt order of None \<Rightarrow> False
                                | Some t \<Rightarrow> iso_date t = iso_date now)
                          then sum_today acc + earnings else sum_today acc),
             sum_week = (if orderDate \<ge> weekAgo then sum_week acc + earnings
                         else sum_week acc),
             sum_month = (if orderDate \<ge> monthAgo then sum_month acc + earnings
                          else sum_month acc)\<rparr>)
      else acc)"

record 'n income_snapshot =
  riderId :: string
  totalEarnings :: 'n
  todayEarnings :: 'n
  weekEarnings :: 'n
  monthEarnings :: 'n
  snap_totalWithdrawn :: 'n
  availableBalance :: 'n
  pendingWithdrawals :: nat
  snap_lastUpdated :: timestamp

definition getRealTimeIncome ::
  "'n number_ops \<Rightarrow> timestamp \<Rightarrow> 'n::{plus,minus,zero} DataStore \<Rightarrow>
   (thrown + 'n income_snapshot) \<times> 'n DataStore" where
  "getRealTimeIncome ops now st =
     (case getAllOrders st of
        (Inl e, st1) \<Rightarrow> (Inl e, st1)
      | (Inr allOrders, st1) \<Rightarrow>
         (let (incomeData, st2) = getIncomeData now st1;
              totals = foldl (income_step now)
                         \<lparr>sum_total = 0, sum_today = 0, sum_week = 0, sum_month = 0\<rparr> allOrders;
              balance = sum_total totals - totalWithdrawn incomeData;
              (pending, st3) = getPendingWithdrawalsCount now st2
          in (Inr \<lparr>riderId = ''rider_001'',
                   totalEarnings = toFixed2 ops (sum_total totals),
                   todayEarnings = toFixed2 ops (sum_today totals),
                   weekEarnings = toFixed2 ops (sum_week totals),
                   monthEarnings = toFixed2 ops (sum_month totals),
                   snap_totalWithdrawn = toFixed2 ops (totalWithdrawn incomeData),
                   availableBalance = toFixed2 ops balance,
                   pendingWithdrawals = pending,
                   snap_lastUpdated = now\<rparr>, st3)))"

text \<open>The decimal digits a template literal writes for an integer.\<close>

definition digit_char :: "nat \<Rightarrow> char" where
  "digit_char d = ''0123456789'' ! d"

fun show_nat :: "nat \<Rightarrow> string" where
  "show_nat n = (if n < 10 then [digit_char n]
                 else show_nat (n div 10) @ [digit_char (n mod 10)])"

definition show_int :: "int \<Rightarrow> string" where
  "show_int i = (if i < 0 then CHR ''-'' # show_nat (nat (- i)) else show_nat (nat i))"

subsubsection \<open>Weekly income trend\<close>

text \<open>
  \<^verbatim>\<open>getLast4Weeks\<close>: the loop runs \<open>i\<close> from 3 down to 0, computes the date \<open>i\<close> weeks
  before today, which it does not use, and pushes the label \<^verbatim>\<open>Week ${4 - i}\<close>.
\<close>

definition getLast4Weeks :: "string list" where
  "getLast4Weeks = map (\<lambda>i. ''Week '' @ show_nat (4 - i)) [3, 2, 1, 0]"

definition getWeekIndex :: "timestamp \<Rightarrow> timestamp \<Rightarrow> int" where
  "getWeekIndex now date =
     (let diffTime = now - date;
          diffDays = diffTime div (1000 * 60 * 60 * 24);
          weekIndex = diffDays div 7
      in weekIndex)"

text \<open>
  \<^verbatim>\<open>a[i] += v\<close> and \<^verbatim>\<open>a[i]++\<close> on an array of four numbers, for an integer \<open>i < 4\<close>:
  a negative \<open>i\<close> names a property that is no element of the array, so the four
  elements stay as they are.
\<close>

definition add_at :: "'a::plus list \<Rightarrow> int \<Rightarrow> 'a \<Rightarrow> 'a list" where
  "add_at a i v = (if 0 \<le> i \<and> i < int (length a) then a[nat i := a ! nat i + v] else a)"

record 'n trend_data =
  period :: string
  labels :: "string list"
  earnings :: "'n list"
  orderCounts :: "nat list"

text \<open>The body of the \<^verbatim>\<open>forEach\<close> of the weekly branch.\<close>

definition weekly_step ::
  "timestamp \<Rightarrow> 'n::{plus,zero} list \<times> nat list \<Rightarrow> 'n order \<Rightarrow> 'n list \<times> nat list" where
  "weekly_step now acc order =
     (let orderDate = effectiveDate order;
          weekIndex = getWeekIndex now orderDate
      in if weekIndex \<noteq> - 1 \<and> weekIndex < 4
         then (add_at (fst acc) weekIndex (fee order), add_at (snd acc) weekIndex 1)
         else acc)"

text \<open>\<^verbatim>\<open>getIncomeTrend('weekly')\<close>.\<close>

definition getIncomeTrend_weekly ::
  "'n number_ops \<Rightarrow> timestamp \<Rightarrow> 'n::{plus,zero} DataStore \<Rightarrow>
   (thrown + 'n trend_data) \<times> 'n DataStore" where
  "getIncomeTrend_weekly ops now st =
     (case getAllOrders st of
        (Inl e, st1) \<Rightarrow> (Inl e, st1)
      | (Inr allOrders, st1) \<Rightarrow>
         (let deliveredOrders = filter (\<lambda>order. status order = ''delivered'') allOrders;
              acc = foldl (weekly_step now) (replicate 4 0, replicate 4 0) deliveredOrders
          in (Inr \<lparr>period = ''weekly'',
                   labels = getLast4Weeks,
                   earnings = map (toFixed2 ops) (fst acc),
                   orderCounts = snd acc\<rparr>, st1)))"

subsubsection \<open>Withdrawals\<close>

text \<open>
  \<^verbatim>\<open>submitWithdrawal\<close>. The store comes back also when it throws: the reads before the
  checks may have filled the cache.
\<close>

definition submitWithdrawal ::
  "'n number_ops \<Rightarrow> timestamp \<Rightarrow> bool \<Rightarrow> 'n::{plus,minus,zero,ord} DataStore \<Rightarrow> 'n \<Rightarrow> string \<Rightarrow>
   (thrown + 'n withdrawal) \<times> 'n DataStore" where
  "submitWithdrawal ops now fs_ok st amt accInfo =
     (let (incomeData, st1) = getIncomeData now st
      in case getRealTimeIncome ops now st1 of
           (Inl e, st2) \<Rightarrow> (Inl e, st2)
         | (Inr realTimeIncome, st2) \<Rightarrow>
            if amt \<le> 0 then (Inl InvalidAmount, st2)
            else if amt > availableBalance realTimeIncome then (Inl InsufficientBalance, st2)
            else
              (let withdrawal = \<lparr>withdrawalId = ''WD'' @ show_int now,
                                  amount = toFixed2 ops amt,
                                  accountInfo = accInfo,
                                  w_status = ''pending'',
                                  requestedAt = now,
                                  processedAt = None,
                                  w_notes = []\<rparr>;
                   incomeData' = incomeData\<lparr>withdrawals := withdrawals incomeData @ [withdrawal],
                                            lastUpdated := now\<rparr>;
                   sl = update_in_place object_truthy (rider_income_json st2) incomeData';
                   (written, sl') = DataStore_write fs_ok sl incomeData'
               in (Inr withdrawal, st2\<lparr>rider_income_json := sl'\<rparr>)))"

text \<open>
  \<^verbatim>\<open>getWithdrawalRecords\<close>. \<^verbatim>\<open>Array.prototype.sort\<close> is stable and sorts in place. With
  the filter \<^verbatim>\<open>all\<close> the array sorted is the one of the document read, which is the cached
  document when there is one; any other filter sorts the fresh array \<^verbatim>\<open>filter\<close> made.
\<close>

definition getWithdrawalRecords ::
  "timestamp \<Rightarrow> 'n::zero DataStore \<Rightarrow> string \<Rightarrow> 'n withdrawal list \<times> 'n DataStore" where
  "getWithdrawalRecords now st statusFilter =
     (let (incomeData, st1) = getIncomeData now st
      in if statusFilter \<noteq> ''all''
         then (sort_key (\<lambda>w. - requestedAt w)
                 (filter (\<lambda>w. w_status w = statusFilter) (withdrawals incomeData)), st1)
         else
           (let sorted_ws = sort_key (\<lambda>w. - requestedAt w) (withdrawals incomeData);
                sl = update_in_place object_truthy (rider_income_json st1)
                       (incomeData\<lparr>withdrawals := sorted_ws\<rparr>)
            in (sorted_ws, st1\<lparr>rider_income_json := sl\<rparr>)))"

text \<open>\<^verbatim>\<open>Array.prototype.findIndex\<close>, with \<open>None\<close> for \<open>-1\<close>.\<close>

fun findIndex :: "('a \<Rightarrow> bool) \<Rightarrow> 'a list \<Rightarrow> nat option" where
  "findIndex p [] = None"
| "findIndex p (x # xs) =
     (if p x then Some 0 else (case findIndex p xs of None \<Rightarrow> None | Some i \<Rightarrow> Some (Suc i)))"

text \<open>\<^verbatim>\<open>updateWithdrawalStatus\<close>; \<open>None\<close> is the \<^verbatim>\<open>null\<close> it returns for an unknown id.\<close>

definition updateWithdrawalStatus ::
  "timestamp \<Rightarrow> bool \<Rightarrow> 'n::{plus,zero} DataStore \<Rightarrow> string \<Rightarrow> string \<Rightarrow> string \<Rightarrow>
   'n withdrawal option \<times> 'n DataStore" where
  "updateWithdrawalStatus now fs_ok st wid newStatus newNotes =
     (let (incomeData, st1) = getIncomeData now st
      in case findIndex (\<lambda>w. withdrawalId w = wid) (withdrawals incomeData) of
           None \<Rightarrow> (None, st1)
         | Some withdrawalIndex \<Rightarrow>
            (let withdrawal = (withdrawals incomeData ! withdrawalIndex)
                                \<lparr>w_status := newStatus, processedAt := Some now,
                                 w_notes := newNotes\<rparr>;
                 incomeData' = incomeData
                   \<lparr>withdrawals := (withdrawals incomeData)[withdrawalIndex := withdrawal],
                    totalWithdrawn := (if newStatus = ''completed''
                                       then totalWithdrawn incomeData + amount withdrawal
                                       else totalWithdrawn incomeData),
                    lastUpdated := now\<rparr>;
                 sl = update_in_place object_truthy (rider_income_json st1) incomeData';
                 (written, sl') = DataStore_write fs_ok sl incomeData'
             in (Some withdrawal, st1\<lparr>rider_income_json := sl'\<rparr>)))"

subsection \<open>OrdersService, continued\<close>

definition getOrdersByStatus ::
  "'n DataStore \<Rightarrow> string \<Rightarrow> (thrown + 'n order list) \<times> 'n DataStore" where
  "getOrdersByStatus st statusFilter =
     (case getAllOrders st of
        (Inl e, st1) \<Rightarrow> (Inl e, st1)
      | (Inr allOrders, st1) \<Rightarrow>
         if statusFilter = ''all'' then (Inr allOrders, st1)
         else (Inr (filter (\<lambda>order.
                  if statusFilter = ''ongoing''
                  then status order \<in> set [''assigned'', ''picked_up'', ''in_transit'']
                  else if statusFilter = ''completed''
                  then status order \<in> set [''delivered'', ''cancelled'']
                  else False) allOrders), st1))"

record 'n order_statistics =
  total :: nat
  ongoing :: nat
  completed :: nat
  cancelled :: nat
  stat_totalEarnings :: 'n
  stat_todayEarnings :: 'n
  todayOrders :: nat

text \<open>The body of the \<^verbatim>\<open>forEach\<close> of \<^verbatim>\<open>getOrderStatistics\<close>; \<open>today\<close> is the date of the clock.\<close>

definition stats_step ::
  "int \<Rightarrow> 'n::{plus,zero} order_statistics \<Rightarrow> 'n order \<Rightarrow> 'n order_statistics" where
  "stats_step today stats order =
     (let stats1 =
            (if status order \<in> set [''assigned'', ''picked_up'', ''in_transit'']
             then stats\<lparr>ongoing := ongoing stats + 1\<rparr>
             else if status order = ''delivered''
             then stats\<lparr>completed := completed stats + 1,
                        stat_totalEarnings := stat_totalEarnings stats + fee order\<rparr>
             else if status order = ''cancelled''
             then stats\<lparr>cancelled := cancelled stats + 1\<rparr>
             else stats);
          orderDate = effectiveDate order
      in if iso_date orderDate = today
         then (let stats2 = stats1\<lparr>todayOrders := todayOrders stats1 + 1\<rparr>
               in if status order = ''delivered''
                  then stats2\<lparr>stat_todayEarnings := stat_todayEarnings stats2 + fee order\<rparr>
                  else stats2)
         else stats1)"

definition getOrderStatistics ::
  "'n number_ops \<Rightarrow> timestamp \<Rightarrow> 'n::{plus,zero} DataStore \<Rightarrow>
   (thrown + 'n order_statistics) \<times> 'n DataStore" where
  "getOrderStatistics ops now st =
     (case getAllOrders st of
        (Inl e, st1) \<Rightarrow> (Inl e, st1)
      | (Inr allOrders, st1) \<Rightarrow>
         (let stats0 = \<lparr>total = length allOrders, ongoing = 0, completed = 0, cancelled = 0,
                        stat_totalEarnings = 0, stat_todayEarnings = 0, todayOrders = 0\<rparr>;
              stats = foldl (stats_step (iso_date now)) stats0 allOrders
          in (Inr (stats\<lparr>stat_totalEarnings := toFixed2 ops (stat_totalEarnings stats),
                         stat_todayEarnings := toFixed2 ops (stat_todayEarnings stats)\<rparr>),
              st1)))"

text \<open>
  \<^verbatim>\<open>orders.sort((a, b) => new Date(b.createdAt) - new Date(a.createdAt))\<close>: a stable sort,
  newest first.
\<close>

definition sort_newest_first :: "'n order list \<Rightarrow> 'n order list" where
  "sort_newest_first os = sort_key (\<lambda>order. - createdAt order) os"

text \<open>\<^verbatim>\<open>a.slice(0, limit)\<close>; a negative limit counts from the end.\<close>

definition slice0 :: "'a list \<Rightarrow> int \<Rightarrow> 'a list" where
  "slice0 a limit = take (nat (if limit < 0 then int (length a) + limit else limit)) a"

text \<open>
  The array \<^verbatim>\<open>getAllOrders\<close> returns is the \<^verbatim>\<open>orders\<close> array of the cached document when,
  after the read, the cache holds an object that has one; otherwise it is a fresh empty
  array. Sorting the returned array in place therefore rewrites the cached document.
\<close>

definition sort_returned_orders :: "'n DataStore \<Rightarrow> 'n DataStore" where
  "sort_returned_orders st =
     (case cache (rider_orders_json st) of
        Some (JsonObject d) \<Rightarrow>
         (case orders d of
            None \<Rightarrow> st
          | Some os \<Rightarrow>
             st\<lparr>rider_orders_json :=
                  (rider_orders_json st)
                    \<lparr>cache := Some (JsonObject (d\<lparr>orders := Some (sort_newest_first os)\<rparr>))\<rparr>\<rparr>)
      | _ \<Rightarrow> st)"

definition getRecentOrders ::
  "'n DataStore \<Rightarrow> int \<Rightarrow> (thrown + 'n order list) \<times> 'n DataStore" where
  "getRecentOrders st limit =
     (case getAllOrders st of
        (Inl e, st1) \<Rightarrow> (Inl e, st1)
      | (Inr allOrders, st1) \<Rightarrow>
         (let sortedOrders = sort_newest_first allOrders
          in (Inr (slice0 sortedOrders limit), sort_returned_orders st1)))"

subsection \<open>The withdrawal route\<close>

text \<open>
  \<^verbatim>\<open>req.body.amount\<close> as \<^verbatim>\<open>validateWithdrawalRequest\<close> sees it: absent (\<^verbatim>\<open>undefined\<close> or
  \<^verbatim>\<open>null\<close>), a value \<^verbatim>\<open>parseFloat\<close> turns into \<^verbatim>\<open>NaN\<close>, or the number \<^verbatim>\<open>parseFloat\<close> gives.
\<close>

datatype 'n body_amount = AmountAbsent | AmountNaN | AmountNumber 'n

datatype body_accountInfo = AccountInfoAbsent | AccountInfoString string | AccountInfoOther

record 'n withdraw_body =
  body_amount :: "'n body_amount"
  body_accountInfo :: body_accountInfo

record error_response =
  statusCode :: nat
  error_text :: string

text \<open>\<^verbatim>\<open>s.split('.')[1]\<close>: what stands between the first dot and the next, if there is a dot.\<close>

definition split_dot_1 :: "string \<Rightarrow> string option" where
  "split_dot_1 s =
     (case dropWhile (\<lambda>c. c \<noteq> CHR ''.'') s of
        [] \<Rightarrow> None
      | c # rest \<Rightarrow> Some (takeWhile (\<lambda>c. c \<noteq> CHR ''.'') rest))"

text \<open>\<^verbatim>\<open>isValidDecimalPlaces\<close>; \<^verbatim>\<open>!decimalPart\<close> holds of \<^verbatim>\<open>undefined\<close> and of the empty string.\<close>

definition isValidDecimalPlaces :: "'n number_ops \<Rightarrow> 'n \<Rightarrow> nat \<Rightarrow> bool" where
  "isValidDecimalPlaces ops num maxDecimals =
     (case split_dot_1 (toString ops num) of
        None \<Rightarrow> True
      | Some decimalPart \<Rightarrow>
          if decimalPart = [] then True else length decimalPart \<le> maxDecimals)"

definition validateWithdrawalRequest ::
  "'n number_ops \<Rightarrow> 'n::{ord,zero} withdraw_body \<Rightarrow>
   error_response + 'n \<times> body_accountInfo" where
  "validateWithdrawalRequest ops body =
     (case body_amount body of
        AmountAbsent \<Rightarrow> Inl \<lparr>statusCode = 400, error_text = ''Missing amount''\<rparr>
      | AmountNaN \<Rightarrow> Inl \<lparr>statusCode = 400, error_text = ''Invalid amount''\<rparr>
      | AmountNumber numericAmount \<Rightarrow>
          if numericAmount \<le> 0
          then Inl \<lparr>statusCode = 400, error_text = ''Invalid amount''\<rparr>
          else if \<not> isValidDecimalPlaces ops numericAmount 2
          then Inl \<lparr>statusCode = 400, error_text = ''Invalid amount format''\<rparr>
          else if numericAmount < literal ops 10
          then Inl \<lparr>statusCode = 400, error_text = ''Amount too low''\<rparr>
          else if numericAmount > literal ops 10000
          then Inl \<lparr>statusCode = 400, error_text = ''Amount too high''\<rparr>
          else if body_accountInfo body = AccountInfoOther
          then Inl \<lparr>statusCode = 400, error_text = ''Invalid account info''\<rparr>
          else Inr (toFixed2 ops numericAmount, body_accountInfo body))"

text \<open>
  The controller: whatever the service throws becomes \<^verbatim>\<open>validationError(error.message)\<close>,
  a 400. An absent \<^verbatim>\<open>accountInfo\<close> takes the parameter's default, the empty string. The
  message of the \<^verbatim>\<open>TypeError\<close> is the engine's; the model keeps its beginning.
\<close>

definition error_message :: "thrown \<Rightarrow> string" where
  "error_message e =
     (case e of
        TypeError \<Rightarrow> ''Cannot read properties of null''
      | InvalidAmount \<Rightarrow> ''Withdrawal amount must be greater than 0''
      | InsufficientBalance \<Rightarrow> ''Insufficient balance for withdrawal'')"

definition controller_submitWithdrawal ::
  "'n number_ops \<Rightarrow> timestamp \<Rightarrow> bool \<Rightarrow> 'n::{plus,minus,zero,ord} DataStore \<Rightarrow> 'n \<Rightarrow>
   body_accountInfo \<Rightarrow> (error_response + 'n withdrawal) \<times> 'n DataStore" where
  "controller_submitWithdrawal ops now fs_ok st amt acc =
     (case submitWithdrawal ops now fs_ok st amt
             (case acc of AccountInfoString s \<Rightarrow> s | _ \<Rightarrow> []) of
        (Inl e, st') \<Rightarrow> (Inl \<lparr>statusCode = 400, error_text = error_message e\<rparr>, st')
      | (Inr w, st') \<Rightarrow> (Inr w, st'))"

text \<open>\<^verbatim>\<open>router.post('/income/withdraw', validateWithdrawalRequest, submitWithdrawal)\<close>\<close>

definition post_income_withdraw ::
  "'n number_ops \<Rightarrow> timestamp \<Rightarrow> bool \<Rightarrow> 'n::{plus,minus,zero,ord} DataStore \<Rightarrow>
   'n withdraw_body \<Rightarrow> (error_response + 'n withdrawal) \<times> 'n DataStore" where
  "post_income_withdraw ops now fs_ok st body =
     (case validateWithdrawalRequest ops body of
        Inl response \<Rightarrow> (Inl response, st)
      | Inr (amt, acc) \<Rightarrow> controller_submitWithdrawal ops now fs_ok st amt acc)"

section \<open>Notions used in the statements\<close>

text \<open>
  The document a \<^verbatim>\<open>read\<close> of a file finds, if any, and the file with its cache entry
  after the read.
\<close>

definition current :: "('d \<Rightarrow> bool) \<Rightarrow> 'd slot \<Rightarrow> 'd option" where
  "current truthy s =
     (if cache_hit truthy s then cache s
      else (case disk s of Content d \<Rightarrow> Some d | _ \<Rightarrow> None))"

definition loaded :: "('d \<Rightarrow> bool) \<Rightarrow> 'd slot \<Rightarrow> 'd slot" where
  "loaded truthy s =
     (if cache_hit truthy s then s
      else (case disk s of Content d \<Rightarrow> s\<lparr>cache := Some d\<rparr> | _ \<Rightarrow> s))"

text \<open>An update in place of the income document read, followed by \<^verbatim>\<open>write\<close>.\<close>

definition persist :: "bool \<Rightarrow> 'd slot \<Rightarrow> 'd \<Rightarrow> 'd slot" where
  "persist fs_ok s d = snd (DataStore_write fs_ok (update_in_place object_truthy s d) d)"

definition orders_or_empty :: "'n orders_doc \<Rightarrow> 'n order list" where
  "orders_or_empty d = (case orders d of None \<Rightarrow> [] | Some os \<Rightarrow> os)"

text \<open>What \<^verbatim>\<open>data.orders || []\<close> makes of a parsed value.\<close>

definition orders_of_json :: "'n orders_doc json \<Rightarrow> thrown + 'n order list" where
  "orders_of_json v =
     (case v of
        JsonNull \<Rightarrow> Inl TypeError
      | JsonFalsy \<Rightarrow> Inr []
      | JsonObject d \<Rightarrow> Inr (orders_or_empty d))"

text \<open>Sorted descending by \<^verbatim>\<open>createdAt\<close>.\<close>

definition newest_first :: "'n order list \<Rightarrow> bool" where
  "newest_first os = sorted_wrt (\<lambda>a b. createdAt a \<ge> createdAt b) os"

text \<open>
  The sum of \<^verbatim>\<open>deliveryFee\<close> over the delivered orders: the fees are added one after the
  other, in the order of the list, to a total that starts at 0, as the loops of the source
  add them.
\<close>

definition delivered_total :: "'n::{plus,zero} order list \<Rightarrow> 'n" where
  "delivered_total os =
     foldl (+) 0 (map fee (filter (\<lambda>order. status order = ''delivered'') os))"

text \<open>The order's week index is \<open>k\<close>.\<close>

definition in_week :: "timestamp \<Rightarrow> nat \<Rightarrow> 'n order \<Rightarrow> bool" where
  "in_week now k order = (getWeekIndex now (effectiveDate order) = int k)"

definition is_ongoing :: "'n order \<Rightarrow> bool" where
  "is_ongoing order = (status order \<in> set [''assigned'', ''picked_up'', ''in_transit''])"

text \<open>
  The orders a status filter selects: \<^verbatim>\<open>all\<close> keeps every order, \<^verbatim>\<open>ongoing\<close> those
  assigned, picked up or in transit, \<^verbatim>\<open>completed\<close> those delivered or cancelled, and any
  other filter none.
\<close>

definition status_selection :: "string \<Rightarrow> 'n order list \<Rightarrow> 'n order list" where
  "status_selection statusFilter os =
     (if statusFilter = ''all'' then os
      else if statusFilter = ''ongoing'' then filter is_ongoing os
      else if statusFilter = ''completed''
      then filter (\<lambda>order. status order = ''delivered'' \<or> status order = ''cancelled'') os
      else [])"

text \<open>The order's effective date falls on the day of the clock.\<close>

definition dated_today :: "timestamp \<Rightarrow> 'n order \<Rightarrow> bool" where
  "dated_today now order = (iso_date (effectiveDate order) = iso_date now)"

text \<open>
  The sum of \<^verbatim>\<open>amount\<close> over the completed withdrawals, added up from 0 in the order of
  the list, and the ledger invariant.
\<close>

definition completed_total :: "'n::{plus,zero} income_doc \<Rightarrow> 'n" where
  "completed_total d =
     foldl (+) 0 (map amount (filter (\<lambda>w. w_status w = ''completed'') (withdrawals d)))"

definition ledger_consistent :: "'n::{plus,zero} income_doc \<Rightarrow> bool" where
  "ledger_consistent d = (completed_total d = totalWithdrawn d)"

text \<open>The record \<^verbatim>\<open>submitWithdrawal\<close> creates.\<close>

definition new_withdrawal :: "'n number_ops \<Rightarrow> timestamp \<Rightarrow> 'n \<Rightarrow> string \<Rightarrow> 'n withdrawal" where
  "new_withdrawal ops now amt acc =
     \<lparr>withdrawalId = ''WD'' @ show_int now, amount = toFixed2 ops amt, accountInfo = acc,
      w_status = ''pending'', requestedAt = now, processedAt = None, w_notes = []\<rparr>"

text \<open>
  The snapshot \<^verbatim>\<open>getRealTimeIncome\<close> builds from the orders and the income document it
  has read.
\<close>

definition snapshot ::
  "'n number_ops \<Rightarrow> timestamp \<Rightarrow> 'n::{plus,minus,zero} order list \<Rightarrow> 'n income_doc \<Rightarrow>
   'n income_snapshot" where
  "snapshot ops now os doc =
     (let totals = foldl (income_step now)
                     \<lparr>sum_total = 0, sum_today = 0, sum_week = 0, sum_month = 0\<rparr> os
      in \<lparr>riderId = ''rider_001'',
          totalEarnings = toFixed2 ops (sum_total totals),
          todayEarnings = toFixed2 ops (sum_today totals),
          weekEarnings = toFixed2 ops (sum_week totals),
          monthEarnings = toFixed2 ops (sum_month totals),
          snap_totalWithdrawn = toFixed2 ops (totalWithdrawn doc),
          availableBalance = toFixed2 ops (sum_total totals - totalWithdrawn doc),
          pendingWithdrawals = length (filter (\<lambda>w. w_status w = ''pending'') (withdrawals doc)),
          snap_lastUpdated = now\<rparr>)"

section \<open>Example data\<close>

text \<open>
  The examples are evaluated on rational numbers with exact arithmetic. Their amounts are
  whole numbers and binary fractions (8.5, 0.125, 0.0625), on which the sums, differences
  and comparisons of doubles are exact; \<^verbatim>\<open>toFixed(2)\<close> rounds the exact value of a double
  to the nearest multiple of 0.01, a tie away from zero; and a number written with two
  decimals (0.13, 9.99) stands for the double nearest to it, which the examples only
  compare with whole numbers, round to two decimals, where it stays as it is, or store.
  \<open>decimal_toString\<close> writes the decimal expansion, which is what \<^verbatim>\<open>toString\<close> writes
  for the double nearest to a number of at most 15 significant digits and of magnitude
  between \<^verbatim>\<open>1e-6\<close> and \<^verbatim>\<open>1e21\<close>.
\<close>

definition decimal_toFixed2 :: "rat \<Rightarrow> rat" where
  "decimal_toFixed2 x =
     (if 0 \<le> x then of_int \<lfloor>x * 100 + 1 / 2\<rfloor> / 100
      else - (of_int \<lfloor>(- x) * 100 + 1 / 2\<rfloor> / 100))"

fun fraction_digits :: "nat \<Rightarrow> rat \<Rightarrow> string" where
  "fraction_digits 0 x = []"
| "fraction_digits (Suc k) x =
     (if x = 0 then []
      else digit_char (nat \<lfloor>x * 10\<rfloor>) # fraction_digits k (x * 10 - of_int \<lfloor>x * 10\<rfloor>))"

definition decimal_toString :: "rat \<Rightarrow> string" where
  "decimal_toString x =
     (let whole = \<lfloor>\<bar>x\<bar>\<rfloor>;
          rest = \<bar>x\<bar> - of_int whole
      in (if x < 0 then ''-'' else []) @ show_int whole @
         (if rest = 0 then [] else CHR ''.'' # fraction_digits 17 rest))"

definition exact :: "rat number_ops" where
  "exact = \<lparr>toFixed2 = decimal_toFixed2, literal = of_int, toString = decimal_toString\<rparr>"

text \<open>
  Noon of 4 October 2024 (day 20000 of the epoch), and three orders: one delivered that
  morning, one delivered ten days before, one cancelled that was created ten days before.
\<close>

definition scenario_now :: timestamp where
  "scenario_now = 1728043200000"

definition order_O1 :: "rat order" where
  "order_O1 = \<lparr>orderId = ''O1'', status = ''delivered'', deliveryFee = Some 15,
               createdAt = 1728036000000, deliveredAt = Some 1728039600000\<rparr>"

definition order_O2 :: "rat order" where
  "order_O2 = \<lparr>orderId = ''O2'', status = ''delivered'', deliveryFee = Some (17 / 2),
               createdAt = 1727175600000, deliveredAt = Some 1727179200000\<rparr>"

definition order_O3 :: "rat order" where
  "order_O3 = \<lparr>orderId = ''O3'', status = ''cancelled'', deliveryFee = Some 5,
               createdAt = 1727179200000, deliveredAt = None\<rparr>"

definition scenario_store :: "rat DataStore" where
  "scenario_store =
     \<lparr>rider_orders_json =
        \<lparr>cache = None,
         disk = Content (JsonObject \<lparr>orders = Some [order_O1, order_O2, order_O3]\<rparr>)\<rparr>,
      rider_income_json = \<lparr>cache = None, disk = Missing\<rparr>\<rparr>"

text \<open>The same with the cancelled order created that morning.\<close>

definition order_O3_today :: "rat order" where
  "order_O3_today = \<lparr>orderId = ''O3'', status = ''cancelled'', deliveryFee = Some 5,
                     createdAt = 1728036000000, deliveredAt = None\<rparr>"

definition scenario_store_today :: "rat DataStore" where
  "scenario_store_today =
     \<lparr>rider_orders_json =
        \<lparr>cache = None,
         disk = Content (JsonObject \<lparr>orders = Some [order_O1, order_O2, order_O3_today]\<rparr>)\<rparr>,
      rider_income_json = \<lparr>cache = None, disk = Missing\<rparr>\<rparr>"

text \<open>A fee of 0.125 and a running total of 0.0625, both exact binary fractions.\<close>

definition subcent_store :: "rat DataStore" where
  "subcent_store =
     \<lparr>rider_orders_json =
        \<lparr>cache = None,
         disk = Content (JsonObject \<lparr>orders = Some [\<lparr>orderId = ''O1'', status = ''delivered'',
                    deliveryFee = Some (1 / 8), createdAt = 1728036000000,
                    deliveredAt = Some 1728039600000\<rparr>]\<rparr>)\<rparr>,
      rider_income_json =
        \<lparr>cache = None,
         disk = Content \<lparr>withdrawals = [], totalWithdrawn = 1 / 16,
                          lastUpdated = 1728036000000\<rparr>\<rparr>\<rparr>"

text \<open>An orders file that exists and cannot be parsed, and one that holds \<^verbatim>\<open>null\<close>.\<close>

definition unreadable_store :: "rat DataStore" where
  "unreadable_store =
     \<lparr>rider_orders_json = \<lparr>cache = None, disk = Unreadable\<rparr>,
      rider_income_json = \<lparr>cache = None, disk = Missing\<rparr>\<rparr>"

definition null_store :: "rat DataStore" where
  "null_store =
     \<lparr>rider_orders_json = \<lparr>cache = None, disk = Content JsonNull\<rparr>,
      rider_income_json = \<lparr>cache = None, disk = Missing\<rparr>\<rparr>"

text \<open>
  The last millisecond of 4 October 2024 and the first of 5 October, with an order
  delivered at the former, one seven days and one thirty days before it.
\<close>

definition last_ms :: timestamp where
  "last_ms = 1728086399999"

definition first_ms :: timestamp where
  "first_ms = 1728086400000"

definition midnight_store :: "rat DataStore" where
  "midnight_store =
     \<lparr>rider_orders_json =
        \<lparr>cache = None,
         disk = Content (JsonObject \<lparr>orders = Some
           [\<lparr>orderId = ''A'', status = ''delivered'', deliveryFee = Some 10,
             createdAt = 1728086399999, deliveredAt = Some 1728086399999\<rparr>,
            \<lparr>orderId = ''B'', status = ''delivered'', deliveryFee = Some 10,
             createdAt = 1727481599999, deliveredAt = Some 1727481599999\<rparr>,
            \<lparr>orderId = ''C'', status = ''delivered'', deliveryFee = Some 10,
             createdAt = 1725494399999, deliveredAt = Some 1725494399999\<rparr>]\<rparr>)\<rparr>,
      rider_income_json = \<lparr>cache = None, disk = Missing\<rparr>\<rparr>"

text \<open>One delivered order worth 20000 and no income file yet.\<close>

definition shop_store :: "rat DataStore" where
  "shop_store =
     \<lparr>rider_orders_json =
        \<lparr>cache = None,
         disk = Content (JsonObject \<lparr>orders = Some [\<lparr>orderId = ''O1'', status = ''delivered'',
                    deliveryFee = Some 20000, createdAt = 1728036000000,
                    deliveredAt = Some 1728039600000\<rparr>]\<rparr>)\<rparr>,
      rider_income_json = \<lparr>cache = None, disk = Missing\<rparr>\<rparr>"

text \<open>An income document whose only withdrawal, of 50, is completed and counted.\<close>

definition paid_withdrawal :: "rat withdrawal" where
  "paid_withdrawal =
     \<lparr>withdrawalId = ''WD1728040000000'', amount = 50, accountInfo = ''acct'',
      w_status = ''completed'', requestedAt = 1728040000000,
      processedAt = Some 1728041000000, w_notes = ''paid''\<rparr>"

definition paid_doc :: "rat income_doc" where
  "paid_doc = \<lparr>withdrawals = [paid_withdrawal], totalWithdrawn = 50,
               lastUpdated = 1728041000000\<rparr>"

definition paid_store :: "rat DataStore" where
  "paid_store =
     \<lparr>rider_orders_json = rider_orders_json shop_store,
      rider_income_json = \<lparr>cache = None, disk = Content paid_doc\<rparr>\<rparr>"

text \<open>One order delivered at the very moment of the query.\<close>

definition fresh_order_store :: "rat DataStore" where
  "fresh_order_store =
     \<lparr>rider_orders_json =
        \<lparr>cache = None,
         disk = Content (JsonObject \<lparr>orders = Some [\<lparr>orderId = ''O1'', status = ''delivered'',
                    deliveryFee = Some 15, createdAt = 1728036000000,
                    deliveredAt = Some 1728043200000\<rparr>]\<rparr>)\<rparr>,
      rider_income_json = \<lparr>cache = None, disk = Missing\<rparr>\<rparr>"

text \<open>Request bodies with the amounts 9.99 and 10000.01.\<close>

definition body_low :: "rat withdraw_body" where
  "body_low = \<lparr>body_amount = AmountNumber (999 / 100), body_accountInfo = AccountInfoAbsent\<rparr>"

definition body_high :: "rat withdraw_body" where
  "body_high = \<lparr>body_amount = AmountNumber (1000001 / 100), body_accountInfo = AccountInfoAbsent\<rparr>"

declare show_nat.simps [simp del]

section \<open>Auxiliary lemmas\<close>

subsection \<open>Rounding of the example numbers\<close>

lemma floor_add_half: "\<lfloor>(of_int k :: rat) + 1 / 2\<rfloor> = k"
  by linarith

lemma decimal_toFixed2_of_int: "decimal_toFixed2 (of_int n) = of_int n"
proof -
  have a: "\<lfloor>(of_int n :: rat) * 100 + 1 / 2\<rfloor> = n * 100"
    using floor_add_half[of "n * 100"] by simp
  have b: "\<lfloor>- (of_int n :: rat) * 100 + 1 / 2\<rfloor> = - n * 100"
    using floor_add_half[of "- n * 100"] by simp
  show ?thesis using a b by (simp add: decimal_toFixed2_def)
qed

lemma toFixed2_exact_numeral [simp]: "toFixed2 exact (numeral k) = numeral k"
  using decimal_toFixed2_of_int[of "numeral k"] by (simp add: exact_def)

lemma toFixed2_exact_0 [simp]: "toFixed2 exact 0 = 0"
  using decimal_toFixed2_of_int[of 0] by (simp add: exact_def)

lemma toFixed2_exact_eighth: "toFixed2 exact (1 / 8) = 13 / 100"
proof -
  have "\<lfloor>(1 / 8 :: rat) * 100 + 1 / 2\<rfloor> = 13" by (simp add: floor_eq_iff)
  then show ?thesis by (simp add: exact_def decimal_toFixed2_def)
qed

lemma toFixed2_exact_sixteenth: "toFixed2 exact (1 / 16) = 6 / 100"
proof -
  have "\<lfloor>(1 / 16 :: rat) * 100 + 1 / 2\<rfloor> = 6" by (simp add: floor_eq_iff)
  then show ?thesis unfolding exact_def decimal_toFixed2_def by simp
qed

lemma toFixed2_exact_cents:
  "0 \<le> k \<Longrightarrow> toFixed2 exact (of_int k / 100) = of_int k / 100"
proof -
  assume "0 \<le> k"
  have "\<lfloor>(of_int k / 100 :: rat) * 100 + 1 / 2\<rfloor> = k"
    using floor_add_half[of k] by simp
  then show ?thesis using \<open>0 \<le> k\<close> by (simp add: exact_def decimal_toFixed2_def)
qed

subsection \<open>The store\<close>

lemma DataStore_read_eq:
  "DataStore_read truthy s dflt =
     (case current truthy s of None \<Rightarrow> dflt | Some d \<Rightarrow> d, loaded truthy s)"
  by (auto simp: DataStore_read_def DataStore_read_try_def current_def loaded_def cache_hit_def
      split: option.splits json_file.splits)

lemma current_loaded [simp]: "current truthy (loaded truthy s) = current truthy s"
  by (auto simp: current_def loaded_def cache_hit_def split: option.splits json_file.splits)

lemma loaded_loaded [simp]: "loaded truthy (loaded truthy s) = loaded truthy s"
  by (auto simp: loaded_def cache_hit_def split: option.splits json_file.splits)

lemma cache_loaded_current:
  "cache (loaded object_truthy s) = current object_truthy s"
  by (auto simp: loaded_def current_def cache_hit_def object_truthy_def
      split: option.splits json_file.splits)

lemma current_persist:
  "current object_truthy (persist fs_ok s d) =
     (if fs_ok \<or> cache s \<noteq> None then Some d else current object_truthy s)"
  by (auto simp: persist_def DataStore_write_def DataStore_write_try_def update_in_place_def
      current_def cache_hit_def object_truthy_def split: option.splits)

lemma getAllOrders_eq:
  "getAllOrders st =
     (case current json_truthy (rider_orders_json st) of
        None \<Rightarrow> Inr []
      | Some v \<Rightarrow> orders_of_json v,
      st\<lparr>rider_orders_json := loaded json_truthy (rider_orders_json st)\<rparr>)"
  by (simp add: getAllOrders_def DataStore_read_eq orders_of_json_def orders_or_empty_def
      split: option.splits json.splits)

lemma getAllOrders_state:
  "snd (getAllOrders st) = st\<lparr>rider_orders_json := loaded json_truthy (rider_orders_json st)\<rparr>"
  by (simp add: getAllOrders_eq)

lemma getAllOrders_again: "getAllOrders (snd (getAllOrders st)) = getAllOrders st"
  by (simp add: getAllOrders_eq)

lemma getIncomeData_eq:
  "getIncomeData now st =
     (case current object_truthy (rider_income_json st) of
        None \<Rightarrow> \<lparr>withdrawals = [], totalWithdrawn = 0, lastUpdated = now\<rparr> | Some d \<Rightarrow> d,
      st\<lparr>rider_income_json := loaded object_truthy (rider_income_json st)\<rparr>)"
  by (simp add: getIncomeData_def DataStore_read_eq)

lemma getIncomeData_after_getAllOrders:
  "fst (getIncomeData now (snd (getAllOrders st))) = fst (getIncomeData now st)"
  by (simp add: getIncomeData_eq getAllOrders_eq)

lemma getIncomeData_nonempty_cached:
  "withdrawals (fst (getIncomeData now st)) \<noteq> [] \<Longrightarrow>
   cache (rider_income_json (snd (getIncomeData now st))) = Some (fst (getIncomeData now st))"
  by (simp add: getIncomeData_eq cache_loaded_current split: option.splits)

subsection \<open>The income snapshot\<close>

lemma sum_total_foldl:
  "sum_total (foldl (income_step now) acc os) =
     foldl (+) (sum_total acc) (map fee (filter (\<lambda>order. status order = ''delivered'') os))"
  by (induction os arbitrary: acc) (simp_all add: income_step_def Let_def)

lemma snapshot_fields:
  "totalEarnings (snapshot ops now os doc) = toFixed2 ops (delivered_total os)"
  "snap_totalWithdrawn (snapshot ops now os doc) = toFixed2 ops (totalWithdrawn doc)"
  "availableBalance (snapshot ops now os doc) =
     toFixed2 ops (delivered_total os - totalWithdrawn doc)"
  "pendingWithdrawals (snapshot ops now os doc) =
     length (filter (\<lambda>w. w_status w = ''pending'') (withdrawals doc))"
  "riderId (snapshot ops now os doc) = ''rider_001''"
  "snap_lastUpdated (snapshot ops now os doc) = now"
  by (simp_all add: snapshot_def Let_def sum_total_foldl delivered_total_def)

text \<open>
  \<^verbatim>\<open>getRealTimeIncome\<close> without the threading of the store: it throws what
  \<^verbatim>\<open>getAllOrders\<close> throws; otherwise it returns the snapshot of the orders and the income
  document found, and leaves both files loaded.
\<close>

lemma getRealTimeIncome_eq:
  "getRealTimeIncome ops now st =
     (case fst (getAllOrders st) of
        Inl e \<Rightarrow> (Inl e, snd (getAllOrders st))
      | Inr os \<Rightarrow>
          (Inr (snapshot ops now os (fst (getIncomeData now st))),
           \<lparr>rider_orders_json = loaded json_truthy (rider_orders_json st),
            rider_income_json = loaded object_truthy (rider_income_json st)\<rparr>))"
  by (cases "fst (getAllOrders st)")
     (simp_all add: getRealTimeIncome_def getPendingWithdrawalsCount_def getAllOrders_eq
        getIncomeData_eq Let_def case_prod_beta snapshot_def split: option.splits)

lemma getRealTimeIncome_throws:
  "fst (getAllOrders st) = Inl e \<Longrightarrow>
   getRealTimeIncome ops now st = (Inl e, snd (getAllOrders st))"
  by (simp add: getRealTimeIncome_eq)

lemma getRealTimeIncome_returns:
  "fst (getAllOrders st) = Inr os \<Longrightarrow>
   getRealTimeIncome ops now st =
     (Inr (snapshot ops now os (fst (getIncomeData now st))),
      \<lparr>rider_orders_json = loaded json_truthy (rider_orders_json st),
       rider_income_json = loaded object_truthy (rider_income_json st)\<rparr>)"
  by (simp add: getRealTimeIncome_eq)

lemma fst_getAllOrders:
  "fst (getAllOrders st) =
     (case current json_truthy (rider_orders_json st) of
        None \<Rightarrow> Inr []
      | Some v \<Rightarrow> orders_of_json v)"
  by (simp add: getAllOrders_eq)

lemma getAllOrders_after_getRealTimeIncome:
  "fst (getAllOrders (snd (getRealTimeIncome ops now st))) = fst (getAllOrders st)"
proof (cases "fst (getAllOrders st)")
  case (Inl e)
  then show ?thesis by (simp add: getRealTimeIncome_throws[OF Inl] getAllOrders_again)
next
  case (Inr os)
  show ?thesis
    unfolding getRealTimeIncome_returns[OF Inr] snd_conv
    by (simp add: fst_getAllOrders)
qed

lemma getIncomeData_after_getRealTimeIncome:
  "fst (getIncomeData now' (snd (getRealTimeIncome ops now st))) = fst (getIncomeData now' st)"
proof (cases "fst (getAllOrders st)")
  case (Inl e)
  then show ?thesis
    by (simp add: getRealTimeIncome_throws[OF Inl] getIncomeData_after_getAllOrders)
next
  case (Inr os)
  show ?thesis
    unfolding getRealTimeIncome_returns[OF Inr] snd_conv
    by (simp add: getIncomeData_eq)
qed

lemma getRealTimeIncome_again:
  "getRealTimeIncome ops now (snd (getRealTimeIncome ops' now' st)) = getRealTimeIncome ops now st"
proof (cases "fst (getAllOrders st)")
  case (Inl e)
  have a: "fst (getAllOrders (snd (getAllOrders st))) = Inl e"
    using Inl by (simp add: getAllOrders_again)
  show ?thesis
    by (simp add: getRealTimeIncome_throws[OF Inl] getRealTimeIncome_throws[OF a]
        getAllOrders_again)
next
  case (Inr os)
  let ?st' = "\<lparr>rider_orders_json = loaded json_truthy (rider_orders_json st),
               rider_income_json = loaded object_truthy (rider_income_json st)\<rparr>"
  have "fst (getAllOrders ?st') = fst (getAllOrders st)"
    by (simp add: fst_getAllOrders)
  then have a: "fst (getAllOrders ?st') = Inr os"
    using Inr by simp
  have b: "fst (getIncomeData now ?st') = fst (getIncomeData now st)"
    by (simp add: getIncomeData_eq)
  show ?thesis
    by (simp add: getRealTimeIncome_returns[OF Inr] getRealTimeIncome_returns[OF a] b)
qed

lemma getAllOrders_after_getIncomeData:
  "fst (getAllOrders (snd (getIncomeData now st))) = fst (getAllOrders st)"
  by (simp add: fst_getAllOrders getIncomeData_eq)

lemma getRealTimeIncome_after_getIncomeData:
  "fst (getRealTimeIncome ops now (snd (getIncomeData now' st))) =
     fst (getRealTimeIncome ops now st)"
  "snd (getRealTimeIncome ops now (snd (getIncomeData now' st))) =
     \<lparr>rider_orders_json = loaded json_truthy (rider_orders_json st),
      rider_income_json = loaded object_truthy (rider_income_json st)\<rparr>"
proof -
  let ?st1 = "snd (getIncomeData now' st)"
  have o: "fst (getAllOrders ?st1) = fst (getAllOrders st)"
    by (rule getAllOrders_after_getIncomeData)
  have i: "fst (getIncomeData now ?st1) = fst (getIncomeData now st)"
    by (simp add: getIncomeData_eq)
  have s: "snd (getAllOrders ?st1) =
             \<lparr>rider_orders_json = loaded json_truthy (rider_orders_json st),
              rider_income_json = loaded object_truthy (rider_income_json st)\<rparr>"
    by (simp add: getAllOrders_state getIncomeData_eq)
  have l: "rider_orders_json ?st1 = rider_orders_json st"
          "loaded object_truthy (rider_income_json ?st1) =
             loaded object_truthy (rider_income_json st)"
    by (simp_all add: getIncomeData_eq)
  show "fst (getRealTimeIncome ops now ?st1) = fst (getRealTimeIncome ops now st)"
    by (cases "fst (getAllOrders st)") (simp_all add: getRealTimeIncome_eq o i)
  show "snd (getRealTimeIncome ops now ?st1) =
     \<lparr>rider_orders_json = loaded json_truthy (rider_orders_json st),
      rider_income_json = loaded object_truthy (rider_income_json st)\<rparr>"
    by (cases "fst (getAllOrders st)") (simp_all add: getRealTimeIncome_eq o s l)
qed

subsection \<open>Sorting orders\<close>

lemma sort_newest_first_sorted: "newest_first (sort_newest_first os)"
proof -
  have "sorted (map (\<lambda>order. - createdAt order) (sort_newest_first os))"
    by (simp add: sort_newest_first_def)
  then show ?thesis
    by (simp add: newest_first_def sorted_map sorted_wrt_iff_nth_less)
qed

lemma sort_newest_first_stable:
  "filter (\<lambda>order. createdAt order = t) (sort_newest_first os) =
   filter (\<lambda>order. createdAt order = t) os"
  using sort_key_stable[of "\<lambda>order. - createdAt order" "- t" os]
  by (simp add: sort_newest_first_def)

lemma getRecentOrders_throws:
  "fst (getAllOrders st) = Inl e \<Longrightarrow> getRecentOrders st limit = (Inl e, snd (getAllOrders st))"
  by (cases "getAllOrders st") (auto simp: getRecentOrders_def)

lemma getRecentOrders_returns:
  "fst (getAllOrders st) = Inr os \<Longrightarrow>
   getRecentOrders st limit =
     (Inr (slice0 (sort_newest_first os) limit), sort_returned_orders (snd (getAllOrders st)))"
  by (cases "getAllOrders st") (auto simp: getRecentOrders_def)

lemma cache_loaded_object:
  "current json_truthy s = Some (JsonObject d) \<Longrightarrow>
   cache (loaded json_truthy s) = Some (JsonObject d)"
  by (auto simp: current_def loaded_def cache_hit_def split: if_splits json_file.splits option.splits)

lemma cache_loaded_not_object:
  "current json_truthy s \<noteq> Some (JsonObject d) \<Longrightarrow>
   cache (loaded json_truthy s) \<noteq> Some (JsonObject d)"
  by (auto simp: current_def loaded_def cache_hit_def json_truthy_def
      split: if_splits json_file.splits option.splits)

lemma getRecentOrders_state:
  assumes "fst (getAllOrders st) = Inr os"
  shows "getAllOrders (snd (getRecentOrders st limit)) =
           (Inr (sort_newest_first os), snd (getRecentOrders st limit))"
proof -
  let ?s = "rider_orders_json st"
  let ?st1 = "snd (getAllOrders st)"
  have st1: "?st1 = st\<lparr>rider_orders_json := loaded json_truthy ?s\<rparr>"
    by (rule getAllOrders_state)
  have goal: "getAllOrders (sort_returned_orders ?st1) =
          (Inr (sort_newest_first os), sort_returned_orders ?st1)"
  proof (cases "\<exists>d xs. current json_truthy ?s = Some (JsonObject d) \<and> orders d = Some xs")
    case True
    then obtain d xs where c: "current json_truthy ?s = Some (JsonObject d)"
      and o: "orders d = Some xs" by blast
    have os: "os = xs" using assms c o by (simp add: fst_getAllOrders orders_of_json_def orders_or_empty_def)
    have "cache (loaded json_truthy ?s) = Some (JsonObject d)"
      using c by (rule cache_loaded_object)
    then have sr: "sort_returned_orders ?st1 =
       ?st1\<lparr>rider_orders_json := (loaded json_truthy ?s)
          \<lparr>cache := Some (JsonObject (d\<lparr>orders := Some (sort_newest_first xs)\<rparr>))\<rparr>\<rparr>"
      using o by (simp add: sort_returned_orders_def st1)
    show ?thesis
      unfolding sr os
      by (simp add: getAllOrders_eq current_def loaded_def cache_hit_def json_truthy_def
          orders_of_json_def orders_or_empty_def st1)
  next
    case False
    have e: "os = []" 
      using assms False
      by (auto simp: fst_getAllOrders orders_of_json_def orders_or_empty_def
          split: option.splits json.splits)
    have "sort_returned_orders ?st1 = ?st1"
    proof (cases "cache (loaded json_truthy ?s)")
      case None
      then show ?thesis by (simp add: sort_returned_orders_def st1)
    next
      case (Some v)
      show ?thesis
      proof (cases v)
        case (JsonObject d)
        with Some have "current json_truthy ?s = Some (JsonObject d)"
          using cache_loaded_not_object[of ?s d] by auto
        with False have "orders d = None" by auto
        with Some JsonObject show ?thesis by (simp add: sort_returned_orders_def st1)
      qed (use Some in \<open>simp_all add: sort_returned_orders_def st1\<close>)
    qed
    then show ?thesis
      using assms by (simp add: getAllOrders_again e sort_newest_first_def prod_eq_iff)
  qed
  then show ?thesis by (simp add: getRecentOrders_returns[OF assms])
qed

lemma getOrdersByStatus_throws:
  "fst (getAllOrders st) = Inl e \<Longrightarrow>
   getOrdersByStatus st statusFilter = (Inl e, snd (getAllOrders st))"
  by (cases "getAllOrders st") (auto simp: getOrdersByStatus_def)

lemma getOrdersByStatus_returns:
  "fst (getAllOrders st) = Inr os \<Longrightarrow>
   getOrdersByStatus st statusFilter =
     (Inr (status_selection statusFilter os), snd (getAllOrders st))"
  by (cases "getAllOrders st")
     (auto simp: getOrdersByStatus_def status_selection_def is_ongoing_def intro: filter_cong)

subsection \<open>Statistics and trend\<close>

lemma stats_step_fields:
  "total (stats_step today s order) = total s"
  "ongoing (stats_step today s order) = ongoing s + (if is_ongoing order then 1 else 0)"
  "completed (stats_step today s order) =
     completed s + (if status order = ''delivered'' then 1 else 0)"
  "cancelled (stats_step today s order) =
     cancelled s + (if status order = ''cancelled'' then 1 else 0)"
  "stat_totalEarnings (stats_step today s order) =
     (if status order = ''delivered'' then stat_totalEarnings s + fee order
      else stat_totalEarnings s)"
  "stat_todayEarnings (stats_step today s order) =
     (if iso_date (effectiveDate order) = today \<and> status order = ''delivered''
      then stat_todayEarnings s + fee order else stat_todayEarnings s)"
  "todayOrders (stats_step today s order) =
     todayOrders s + (if iso_date (effectiveDate order) = today then 1 else 0)"
  by (simp_all add: stats_step_def Let_def is_ongoing_def)

lemma stats_foldl:
  "total (foldl (stats_step (iso_date now)) s os) = total s \<and>
   ongoing (foldl (stats_step (iso_date now)) s os) = ongoing s + length (filter is_ongoing os) \<and>
   completed (foldl (stats_step (iso_date now)) s os) =
     completed s + length (filter (\<lambda>order. status order = ''delivered'') os) \<and>
   cancelled (foldl (stats_step (iso_date now)) s os) =
     cancelled s + length (filter (\<lambda>order. status order = ''cancelled'') os) \<and>
   stat_totalEarnings (foldl (stats_step (iso_date now)) s os) =
     foldl (+) (stat_totalEarnings s)
       (map fee (filter (\<lambda>order. status order = ''delivered'') os)) \<and>
   stat_todayEarnings (foldl (stats_step (iso_date now)) s os) =
     foldl (+) (stat_todayEarnings s)
       (map fee (filter (\<lambda>order. status order = ''delivered'') (filter (dated_today now) os))) \<and>
   todayOrders (foldl (stats_step (iso_date now)) s os) =
     todayOrders s + length (filter (dated_today now) os)"
proof (induction os arbitrary: s)
  case Nil
  then show ?case by simp
next
  case (Cons order os)
  show ?case
    using Cons.IH[of "stats_step (iso_date now) s order"]
    by (simp add: stats_step_fields dated_today_def)
qed

lemma getOrderStatistics_throws:
  "fst (getAllOrders st) = Inl e \<Longrightarrow>
   getOrderStatistics ops now st = (Inl e, snd (getAllOrders st))"
  by (cases "getAllOrders st") (auto simp: getOrderStatistics_def)

lemma getOrderStatistics_returns:
  "fst (getAllOrders st) = Inr os \<Longrightarrow>
   getOrderStatistics ops now st =
     (Inr \<lparr>total = length os,
           ongoing = length (filter is_ongoing os),
           completed = length (filter (\<lambda>order. status order = ''delivered'') os),
           cancelled = length (filter (\<lambda>order. status order = ''cancelled'') os),
           stat_totalEarnings = toFixed2 ops (delivered_total os),
           stat_todayEarnings = toFixed2 ops (delivered_total (filter (dated_today now) os)),
           todayOrders = length (filter (dated_today now) os)\<rparr>,
      snd (getAllOrders st))"
  by (cases "getAllOrders st")
     (auto simp: getOrderStatistics_def Let_def stats_foldl delivered_total_def)

lemma show_nat_digit: "n < 10 \<Longrightarrow> show_nat n = [digit_char n]"
  by (simp add: show_nat.simps)

lemma getLast4Weeks_eq: "getLast4Weeks = [''Week 1'', ''Week 2'', ''Week 3'', ''Week 4'']"
  by (simp add: getLast4Weeks_def show_nat_digit digit_char_def)

lemma length_add_at: "length (add_at a i v) = length a"
  by (simp add: add_at_def)

lemma nth_add_at:
  "k < length a \<Longrightarrow> add_at a i v ! k = (if i = int k then a ! k + v else a ! k)"
  by (auto simp: add_at_def nth_list_update)

lemma weekly_foldl_length:
  "length (fst (foldl (weekly_step now) acc os)) = length (fst acc) \<and>
   length (snd (foldl (weekly_step now) acc os)) = length (snd acc)"
  by (induction os arbitrary: acc) (simp_all add: weekly_step_def Let_def length_add_at)

lemma weekly_foldl_nth:
  "k < 4 \<Longrightarrow> length (fst acc) = 4 \<Longrightarrow> length (snd acc) = 4 \<Longrightarrow>
   fst (foldl (weekly_step now) acc os) ! k =
     foldl (+) (fst acc ! k) (map fee (filter (in_week now k) os)) \<and>
   snd (foldl (weekly_step now) acc os) ! k =
     snd acc ! k + length (filter (in_week now k) os)"
proof (induction os arbitrary: acc)
  case Nil
  then show ?case by simp
next
  case (Cons order os)
  have l: "length (fst (weekly_step now acc order)) = 4"
          "length (snd (weekly_step now acc order)) = 4"
    using Cons.prems by (simp_all add: weekly_step_def Let_def length_add_at)
  have s: "fst (weekly_step now acc order) ! k =
             (if in_week now k order then fst acc ! k + fee order else fst acc ! k)"
          "snd (weekly_step now acc order) ! k =
             snd acc ! k + (if in_week now k order then 1 else 0)"
    using Cons.prems by (auto simp: weekly_step_def Let_def nth_add_at in_week_def)
  show ?case
    using Cons.IH[OF Cons.prems(1) l] s by simp
qed

text \<open>
  The two floors of \<^verbatim>\<open>getWeekIndex\<close> are one: the index is the number of whole weeks
  between the date and the clock.
\<close>

lemma getWeekIndex_floor: "getWeekIndex now date = (now - date) div (7 * day_ms)"
  by (simp add: getWeekIndex_def day_ms_def Let_def div_mult2_eq)

lemma replicate_4: "replicate 4 x = [x, x, x, x]"
  by (simp add: numeral_eq_Suc)

text \<open>
  What the weekly branch computes: slot \<open>k\<close> of both arrays collects the delivered orders
  of week index \<open>k\<close>; orders of any other index, negative or above three, reach no slot.
\<close>

lemma weekly_trend_buckets:
  "k < 4 \<Longrightarrow> fst (getAllOrders st) = Inr os \<Longrightarrow>
   \<exists>t. fst (getIncomeTrend_weekly ops now st) = Inr t \<and>
       labels t = [''Week 1'', ''Week 2'', ''Week 3'', ''Week 4''] \<and>
       length (earnings t) = 4 \<and> length (orderCounts t) = 4 \<and>
       earnings t ! k =
         toFixed2 ops (foldl (+) 0 (map fee (filter (in_week now k)
           (filter (\<lambda>order. status order = ''delivered'') os)))) \<and>
       orderCounts t ! k =
         length (filter (in_week now k) (filter (\<lambda>order. status order = ''delivered'') os))"
  using weekly_foldl_nth[of k "(replicate 4 0, replicate 4 0)" now
      "filter (\<lambda>order. status order = ''delivered'') os"]
    weekly_foldl_length[of now "(replicate 4 0, replicate 4 0)"
      "filter (\<lambda>order. status order = ''delivered'') os"]
  by (cases "getAllOrders st")
     (auto simp: getIncomeTrend_weekly_def Let_def getLast4Weeks_eq)

subsection \<open>Withdrawals\<close>

lemma findIndex_Some_less: "findIndex p xs = Some i \<Longrightarrow> i < length xs"
  by (induction xs arbitrary: i) (auto split: if_splits option.splits)

text \<open>
  \<^verbatim>\<open>submitWithdrawal\<close> without the threading of the store.
\<close>

lemma submitWithdrawal_throws:
  "fst (getAllOrders st) = Inl e \<Longrightarrow>
   submitWithdrawal ops now fs_ok st amt acc =
     (Inl e, \<lparr>rider_orders_json = loaded json_truthy (rider_orders_json st),
              rider_income_json = loaded object_truthy (rider_income_json st)\<rparr>)"
proof -
  assume a: "fst (getAllOrders st) = Inl e"
  have f: "fst (getRealTimeIncome ops now (snd (getIncomeData now st))) = Inl e"
    by (simp add: getRealTimeIncome_after_getIncomeData getRealTimeIncome_throws[OF a])
  show ?thesis
    using f getRealTimeIncome_after_getIncomeData(2)[of ops now now st]
    by (cases "getRealTimeIncome ops now (snd (getIncomeData now st))")
       (auto simp: submitWithdrawal_def case_prod_beta)
qed

lemma submitWithdrawal_returns:
  assumes "fst (getAllOrders st) = Inr os"
  shows "submitWithdrawal ops now fs_ok st amt acc =
     (if amt \<le> 0 then (Inl InvalidAmount, snd (getRealTimeIncome ops now st))
      else if amt > availableBalance (snapshot ops now os (fst (getIncomeData now st)))
      then (Inl InsufficientBalance, snd (getRealTimeIncome ops now st))
      else (Inr (new_withdrawal ops now amt acc),
            (snd (getRealTimeIncome ops now st))
              \<lparr>rider_income_json :=
                 persist fs_ok (loaded object_truthy (rider_income_json st))
                   ((fst (getIncomeData now st))
                      \<lparr>withdrawals := withdrawals (fst (getIncomeData now st)) @
                                       [new_withdrawal ops now amt acc],
                       lastUpdated := now\<rparr>)\<rparr>))"
proof -
  let ?st1 = "snd (getIncomeData now st)"
  let ?st2 = "\<lparr>rider_orders_json = loaded json_truthy (rider_orders_json st),
               rider_income_json = loaded object_truthy (rider_income_json st)\<rparr>"
  have r: "getRealTimeIncome ops now ?st1 =
             (Inr (snapshot ops now os (fst (getIncomeData now st))), ?st2)"
    using getRealTimeIncome_after_getIncomeData[of ops now now st]
    by (simp add: prod_eq_iff getRealTimeIncome_returns[OF assms])
  have s: "snd (getRealTimeIncome ops now st) = ?st2"
    by (simp add: getRealTimeIncome_returns[OF assms])
  show ?thesis
    unfolding s
    by (simp add: submitWithdrawal_def case_prod_beta Let_def r new_withdrawal_def persist_def)
qed

lemma getIncomeData_clock:
  "withdrawals (fst (getIncomeData now' st)) = withdrawals (fst (getIncomeData now st))"
  "totalWithdrawn (fst (getIncomeData now' st)) = totalWithdrawn (fst (getIncomeData now st))"
  by (simp_all add: getIncomeData_eq split: option.splits)

lemma getIncomeData_on_loaded:
  "fst (getIncomeData now' \<lparr>rider_orders_json = so,
          rider_income_json = loaded object_truthy (rider_income_json st)\<rparr>) =
   fst (getIncomeData now' st)"
  by (simp add: getIncomeData_eq)

lemma getIncomeData_persisted:
  "fs_ok \<or> cache s \<noteq> None \<Longrightarrow>
   fst (getIncomeData now' \<lparr>rider_orders_json = so, rider_income_json = persist fs_ok s d\<rparr>) = d"
  by (simp add: getIncomeData_eq current_persist)

lemma getIncomeData_not_persisted:
  "\<not> fs_ok \<Longrightarrow> cache s = None \<Longrightarrow>
   fst (getIncomeData now' \<lparr>rider_orders_json = so, rider_income_json = persist fs_ok s d\<rparr>) =
   fst (getIncomeData now' \<lparr>rider_orders_json = so, rider_income_json = s\<rparr>)"
  by (simp add: getIncomeData_eq current_persist)

lemma submitWithdrawal_rejected_state:
  "fst (submitWithdrawal ops now fs_ok st amt acc) = Inl e \<Longrightarrow>
   snd (submitWithdrawal ops now fs_ok st amt acc) =
     \<lparr>rider_orders_json = loaded json_truthy (rider_orders_json st),
      rider_income_json = loaded object_truthy (rider_income_json st)\<rparr>"
proof (cases "fst (getAllOrders st)")
  case (Inl e')
  show ?thesis by (simp add: submitWithdrawal_throws[OF Inl])
next
  case (Inr os)
  assume "fst (submitWithdrawal ops now fs_ok st amt acc) = Inl e"
  then show ?thesis
    unfolding submitWithdrawal_returns[OF Inr] getRealTimeIncome_returns[OF Inr]
    by (simp split: if_splits)
qed

lemma submitWithdrawal_accepted_state:
  "fst (submitWithdrawal ops now fs_ok st amt acc) = Inr w \<Longrightarrow>
   w = new_withdrawal ops now amt acc \<and>
   snd (submitWithdrawal ops now fs_ok st amt acc) =
     \<lparr>rider_orders_json = loaded json_truthy (rider_orders_json st),
      rider_income_json =
        persist fs_ok (loaded object_truthy (rider_income_json st))
          ((fst (getIncomeData now st))
             \<lparr>withdrawals := withdrawals (fst (getIncomeData now st)) @ [w],
              lastUpdated := now\<rparr>)\<rparr>"
proof (cases "fst (getAllOrders st)")
  case (Inl e')
  assume "fst (submitWithdrawal ops now fs_ok st amt acc) = Inr w"
  then show ?thesis by (simp add: submitWithdrawal_throws[OF Inl])
next
  case (Inr os)
  assume "fst (submitWithdrawal ops now fs_ok st amt acc) = Inr w"
  then show ?thesis
    unfolding submitWithdrawal_returns[OF Inr] getRealTimeIncome_returns[OF Inr]
    by (simp split: if_splits)
qed

lemma submitWithdrawal_rejected:
  "fst (submitWithdrawal ops now fs_ok st amt acc) = Inl e \<Longrightarrow>
   fst (getIncomeData now' (snd (submitWithdrawal ops now fs_ok st amt acc))) =
   fst (getIncomeData now' st)"
  unfolding submitWithdrawal_rejected_state by (rule getIncomeData_on_loaded)

lemma submitWithdrawal_accepted:
  "fst (submitWithdrawal ops now True st amt acc) = Inr w \<Longrightarrow>
   w = new_withdrawal ops now amt acc \<and>
   withdrawals (fst (getIncomeData now' (snd (submitWithdrawal ops now True st amt acc)))) =
   withdrawals (fst (getIncomeData now st)) @ [w]"
proof -
  assume a: "fst (submitWithdrawal ops now True st amt acc) = Inr w"
  note s = submitWithdrawal_accepted_state[OF a]
  show ?thesis
    using s by (simp add: getIncomeData_persisted)
qed

lemma submitWithdrawal_totalWithdrawn:
  "totalWithdrawn (fst (getIncomeData now' (snd (submitWithdrawal ops now fs_ok st amt acc)))) =
   totalWithdrawn (fst (getIncomeData now st))"
proof (cases "fst (submitWithdrawal ops now fs_ok st amt acc)")
  case (Inl e)
  show ?thesis
    unfolding submitWithdrawal_rejected[OF Inl] by (rule getIncomeData_clock)
next
  case (Inr w)
  note s = submitWithdrawal_accepted_state[OF Inr]
  show ?thesis
  proof (cases "fs_ok \<or> cache (loaded object_truthy (rider_income_json st)) \<noteq> None")
    case True
    then show ?thesis using s by (simp add: getIncomeData_persisted)
  next
    case False
    then have f: "\<not> fs_ok" "cache (loaded object_truthy (rider_income_json st)) = None"
      by simp_all
    show ?thesis
      using s getIncomeData_clock(2)[of now' st now]
      by (simp add: getIncomeData_not_persisted[OF f] getIncomeData_on_loaded)
  qed
qed

lemma submitWithdrawal_orders:
  "fst (getAllOrders (snd (submitWithdrawal ops now fs_ok st amt acc))) = fst (getAllOrders st)"
proof (cases "fst (getAllOrders st)")
  case (Inl e)
  show ?thesis by (simp add: submitWithdrawal_throws[OF Inl] fst_getAllOrders)
next
  case (Inr os)
  show ?thesis
    by (simp add: submitWithdrawal_returns[OF Inr] getRealTimeIncome_returns[OF Inr]
        fst_getAllOrders)
qed

lemma updateWithdrawalStatus_unknown:
  assumes "findIndex (\<lambda>w. withdrawalId w = wid) (withdrawals (fst (getIncomeData now st))) = None"
  shows "updateWithdrawalStatus now fs_ok st wid newStatus newNotes =
           (None, snd (getIncomeData now st))"
  using assms by (simp add: updateWithdrawalStatus_def case_prod_beta)

lemma updateWithdrawalStatus_found:
  fixes now :: timestamp and st :: "'n::{plus,zero} DataStore"
    and newStatus newNotes wid :: string and i :: nat
  assumes "findIndex (\<lambda>w. withdrawalId w = wid) (withdrawals (fst (getIncomeData now st))) = Some i"
  defines "doc \<equiv> fst (getIncomeData now st)"
  defines "w' \<equiv> (withdrawals doc ! i)
                   \<lparr>w_status := newStatus, processedAt := Some now, w_notes := newNotes\<rparr>"
  defines "doc' \<equiv> doc\<lparr>withdrawals := (withdrawals doc)[i := w'],
                        totalWithdrawn := (if newStatus = ''completed''
                                           then totalWithdrawn doc + amount w'
                                           else totalWithdrawn doc),
                        lastUpdated := now\<rparr>"
  shows "fst (updateWithdrawalStatus now fs_ok st wid newStatus newNotes) = Some w'"
    and "fst (getIncomeData now'
              (snd (updateWithdrawalStatus now fs_ok st wid newStatus newNotes))) = doc'"
proof -
  let ?st1 = "snd (getIncomeData now st)"
  from assms(1) have ne: "withdrawals (fst (getIncomeData now st)) \<noteq> []"
    by (auto dest: findIndex_Some_less)
  have c: "cache (rider_income_json ?st1) = Some doc"
    unfolding doc_def by (rule getIncomeData_nonempty_cached[OF ne])
  have eq: "updateWithdrawalStatus now fs_ok st wid newStatus newNotes =
      (Some w', ?st1\<lparr>rider_income_json := persist fs_ok (rider_income_json ?st1) doc'\<rparr>)"
    using assms(1)
    by (simp add: updateWithdrawalStatus_def case_prod_beta Let_def w'_def doc_def doc'_def
        persist_def)
  show "fst (updateWithdrawalStatus now fs_ok st wid newStatus newNotes) = Some w'"
    unfolding eq by simp
  show "fst (getIncomeData now'
             (snd (updateWithdrawalStatus now fs_ok st wid newStatus newNotes))) = doc'"
    unfolding eq by (simp add: getIncomeData_eq[of now'] current_persist c)
qed

subsection \<open>The validator\<close>

lemma validateWithdrawalRequest_bounds:
  "body_amount body = AmountNumber a \<Longrightarrow> a < literal ops 10 \<or> literal ops 10000 < a \<Longrightarrow>
   \<exists>response. validateWithdrawalRequest ops body = Inl response \<and> statusCode response = 400"
  by (auto simp: validateWithdrawalRequest_def)

lemma validateWithdrawalRequest_accepts:
  "validateWithdrawalRequest ops body = Inr (amt, acc) \<Longrightarrow>
   \<exists>a. body_amount body = AmountNumber a \<and> amt = toFixed2 ops a \<and>
       \<not> a \<le> 0 \<and> isValidDecimalPlaces ops a 2 \<and>
       \<not> a < literal ops 10 \<and> \<not> literal ops 10000 < a"
  by (auto simp: validateWithdrawalRequest_def split: body_amount.splits if_splits)

subsection \<open>The ledger and the withdrawal ids\<close>

text \<open>
  \<^verbatim>\<open>submitWithdrawal\<close> adds a pending withdrawal at most, which keeps the ledger invariant
  in every arithmetic. Where addition is associative and commutative with 0 neutral, as it
  is on amounts that doubles add without rounding, \<^verbatim>\<open>getWithdrawalRecords\<close>, which
  reorders the withdrawals at most, keeps it too, and so does \<^verbatim>\<open>updateWithdrawalStatus\<close>
  on a withdrawal that is not completed.
\<close>

lemma submitWithdrawal_keeps_ledger:
  "ledger_consistent (fst (getIncomeData now st)) \<Longrightarrow>
   ledger_consistent (fst (getIncomeData now (snd (submitWithdrawal ops now fs_ok st amt acc))))"
proof (cases "fst (submitWithdrawal ops now fs_ok st amt acc)")
  case (Inl e)
  assume "ledger_consistent (fst (getIncomeData now st))"
  then show ?thesis by (simp add: submitWithdrawal_rejected[OF Inl])
next
  case (Inr w)
  assume inv: "ledger_consistent (fst (getIncomeData now st))"
  note s = submitWithdrawal_accepted_state[OF Inr]
  show ?thesis
  proof (cases "fs_ok \<or> cache (loaded object_truthy (rider_income_json st)) \<noteq> None")
    case True
    then show ?thesis
      using s inv
      by (simp add: getIncomeData_persisted ledger_consistent_def completed_total_def
          new_withdrawal_def)
  next
    case False
    then have f: "\<not> fs_ok" "cache (loaded object_truthy (rider_income_json st)) = None"
      by simp_all
    show ?thesis
      using s inv by (simp add: getIncomeData_not_persisted[OF f] getIncomeData_on_loaded)
  qed
qed

lemma foldl_plus_sum_list: "foldl (+) a xs = a + sum_list (xs :: 'a::monoid_add list)"
  by (induction xs arbitrary: a) (simp_all add: add.assoc)

lemma completed_total_sum_list:
  "completed_total d =
     sum_list (map amount (filter (\<lambda>w. w_status w = ''completed'') (withdrawals d)))"
  for d :: "'n::comm_monoid_add income_doc"
  by (simp add: completed_total_def foldl_plus_sum_list)

lemma sum_filter_update:
  "i < length xs \<Longrightarrow> \<not> p (xs ! i) \<Longrightarrow>
   sum_list (map f (filter p (xs[i := y]))) =
   sum_list (map f (filter p xs)) + (if p y then f y else (0::'a::comm_monoid_add))"
  by (induction xs arbitrary: i) (auto simp: nth_Cons' ac_simps split: nat.splits)

lemma sum_list_sort_key:
  "sum_list (map g (filter p (sort_key f xs))) =
   (sum_list (map g (filter p xs)) :: 'a::comm_monoid_add)"
proof -
  have "mset (map g (filter p (sort_key f xs))) = mset (map g (filter p xs))"
    by simp
  then show ?thesis by (metis sum_mset_sum_list)
qed

lemma updateWithdrawalStatus_keeps_ledger:
  fixes st :: "'n::comm_monoid_add DataStore"
  assumes found: "findIndex (\<lambda>w. withdrawalId w = wid)
                    (withdrawals (fst (getIncomeData now st))) = Some i"
    and not_completed: "w_status (withdrawals (fst (getIncomeData now st)) ! i) \<noteq> ''completed''"
    and inv: "ledger_consistent (fst (getIncomeData now st))"
  shows "ledger_consistent
           (fst (getIncomeData now'
                  (snd (updateWithdrawalStatus now fs_ok st wid newStatus newNotes))))"
proof -
  have len: "i < length (withdrawals (fst (getIncomeData now st)))"
    using found by (rule findIndex_Some_less)
  show ?thesis
    unfolding updateWithdrawalStatus_found(2)[OF found]
    using inv not_completed
    by (simp add: ledger_consistent_def completed_total_sum_list
        sum_filter_update[OF len, where p = "\<lambda>w. w_status w = ''completed''"])
qed

lemma current_update_in_place:
  "current object_truthy (update_in_place object_truthy s d) =
     (if cache s = None then current object_truthy s else Some d)"
  by (auto simp: update_in_place_def current_def cache_hit_def object_truthy_def
      split: option.splits)

lemma getWithdrawalRecords_keeps_ledger:
  fixes st :: "'n::comm_monoid_add DataStore"
  assumes "ledger_consistent (fst (getIncomeData now st))"
  shows "ledger_consistent
           (fst (getIncomeData now' (snd (getWithdrawalRecords now st statusFilter))))"
proof -
  have s: "completed_total (d\<lparr>withdrawals := sort_key f (withdrawals d)\<rparr>) = completed_total d"
    for d :: "'n income_doc" and f :: "'n withdrawal \<Rightarrow> int"
    by (simp add: completed_total_sum_list sum_list_sort_key)
  show ?thesis
  proof (cases "current object_truthy (rider_income_json st)")
    case None
    then show ?thesis
      by (simp add: getWithdrawalRecords_def case_prod_beta Let_def getIncomeData_eq
          current_update_in_place cache_loaded_current ledger_consistent_def
          completed_total_def)
  next
    case (Some d)
    with assms show ?thesis
      by (simp add: getWithdrawalRecords_def case_prod_beta Let_def getIncomeData_eq
          current_update_in_place cache_loaded_current ledger_consistent_def s)
  qed
qed

text \<open>
  The decimal digits written for a clock value determine it, so that ids made at different
  milliseconds differ.
\<close>

lemma digit_char_inj: "a < 10 \<Longrightarrow> b < 10 \<Longrightarrow> digit_char a = digit_char b \<Longrightarrow> a = b"
proof -
  assume "a < 10" "b < 10" "digit_char a = digit_char b"
  moreover have "distinct ''0123456789''" by simp
  ultimately show ?thesis
    by (simp add: digit_char_def nth_eq_iff_index_eq)
qed

lemma show_nat_nonempty: "show_nat n \<noteq> []" "[] \<noteq> show_nat n"
  by (subst show_nat.simps, simp)+

lemma show_nat_inj: "show_nat m = show_nat n \<Longrightarrow> m = n"
proof (induction m arbitrary: n rule: show_nat.induct)
  case (1 m)
  show ?case
  proof (cases "m < 10")
    case True
    show ?thesis
    proof (cases "n < 10")
      case n: True
      with True "1.prems" show ?thesis
        by (simp add: show_nat.simps[of m] show_nat.simps[of n] digit_char_inj)
    next
      case False
      with True "1.prems" show ?thesis
        by (simp add: show_nat.simps[of m] show_nat.simps[of n] show_nat_nonempty)
    qed
  next
    case False
    show ?thesis
    proof (cases "n < 10")
      case True
      with False "1.prems" show ?thesis
        by (simp add: show_nat.simps[of m] show_nat.simps[of n] show_nat_nonempty)
    next
      case n: False
      from False n "1.prems"
      have eq: "show_nat (m div 10) = show_nat (n div 10)"
        and d: "digit_char (m mod 10) = digit_char (n mod 10)"
        by (simp_all add: show_nat.simps[of m] show_nat.simps[of n])
      have "m div 10 = n div 10" using "1.IH"[OF False eq] .
      moreover have "m mod 10 = n mod 10" using d by (simp add: digit_char_inj)
      ultimately show ?thesis by (metis div_mult_mod_eq)
    qed
  qed
qed

lemma show_nat_digits: "c \<in> set (show_nat n) \<Longrightarrow> c \<in> set ''0123456789''"
proof (induction n rule: show_nat.induct)
  case (1 n)
  have d: "digit_char k \<in> set ''0123456789''" if "k < 10" for k
    unfolding digit_char_def using that by (intro nth_mem) simp
  show ?case
  proof (cases "n < 10")
    case True
    with "1.prems" d[of n] show ?thesis by (simp add: show_nat.simps[of n])
  next
    case False
    with "1.prems" "1.IH" d[of "n mod 10"] show ?thesis
      by (auto simp: show_nat.simps[of n])
  qed
qed

lemma show_int_inj: "show_int i = show_int j \<Longrightarrow> i = j"
proof -
  assume eq: "show_int i = show_int j"
  have no_minus: "hd (show_nat n) \<noteq> CHR ''-''" for n
  proof -
    have "hd (show_nat n) \<in> set (show_nat n)" using show_nat_nonempty(1) by (intro hd_in_set)
    then have "hd (show_nat n) \<in> set ''0123456789''" by (rule show_nat_digits)
    then show ?thesis by auto
  qed
  consider "i < 0" "j < 0" | "i < 0" "\<not> j < 0" | "\<not> i < 0" "j < 0" | "\<not> i < 0" "\<not> j < 0"
    by blast
  then show ?thesis
  proof cases
    case 1
    with eq have "show_nat (nat (- i)) = show_nat (nat (- j))" by (simp add: show_int_def)
    then have "nat (- i) = nat (- j)" by (rule show_nat_inj)
    with 1 show ?thesis by simp
  next
    case 2
    with eq have "show_nat (nat j) = CHR ''-'' # show_nat (nat (- i))" by (simp add: show_int_def)
    with no_minus[of "nat j"] show ?thesis by simp
  next
    case 3
    with eq have "show_nat (nat i) = CHR ''-'' # show_nat (nat (- j))" by (simp add: show_int_def)
    with no_minus[of "nat i"] show ?thesis by simp
  next
    case 4
    with eq have "show_nat (nat i) = show_nat (nat j)" by (simp add: show_int_def)
    then have "nat i = nat j" by (rule show_nat_inj)
    with 4 show ?thesis by simp
  qed
qed


lemma withdrawalId_distinct_clock:
  "withdrawalId (new_withdrawal ops now amt acc) =
     withdrawalId (new_withdrawal ops' now' amt' acc') \<longleftrightarrow> now = now'"
  by (auto simp: new_withdrawal_def dest: show_int_inj)

section \<open>The claims\<close>

subsection \<open>Evaluation on the example data\<close>

lemma scenario_orders:
  "fst (getAllOrders scenario_store) = Inr [order_O1, order_O2, order_O3]"
  by (simp add: fst_getAllOrders current_def cache_hit_def orders_of_json_def orders_or_empty_def
      scenario_store_def)

lemma scenario_income:
  "fst (getIncomeData now scenario_store) =
     \<lparr>withdrawals = [], totalWithdrawn = 0, lastUpdated = now\<rparr>"
  by (simp add: getIncomeData_eq current_def cache_hit_def scenario_store_def)

lemma scenario_total: "delivered_total [order_O1, order_O2, order_O3] = 47 / 2"
  by (simp add: delivered_total_def fee_def order_O1_def order_O2_def order_O3_def)

lemma toFixed2_exact_47_2: "toFixed2 exact (47 / 2) = 47 / 2"
  using toFixed2_exact_cents[of 2350] by simp

lemma subcent_orders:
  "fst (getAllOrders subcent_store) =
     Inr [\<lparr>orderId = ''O1'', status = ''delivered'', deliveryFee = Some (1 / 8),
           createdAt = 1728036000000, deliveredAt = Some 1728039600000\<rparr>]"
  by (simp add: fst_getAllOrders current_def cache_hit_def orders_of_json_def orders_or_empty_def
      subcent_store_def)

lemma subcent_income:
  "fst (getIncomeData now subcent_store) =
     \<lparr>withdrawals = [], totalWithdrawn = 1 / 16, lastUpdated = 1728036000000\<rparr>"
  by (simp add: getIncomeData_eq current_def cache_hit_def subcent_store_def)

text \<open>
  C1, as stated, fails. With one delivered order of fee 0.125 and a running total of
  0.0625 the snapshot shows \<open>totalEarnings = 0.13\<close>, \<open>totalWithdrawn = 0.06\<close> and
  \<open>availableBalance = 0.06\<close>: each field is rounded on its own from the raw figures, the
  raw difference being 0.0625, and 0.13 - 0.06 is not 0.06.
\<close>

theorem realtime_balance_counterexample:
  "\<exists>r. fst (getRealTimeIncome exact scenario_now subcent_store) = Inr r \<and>
       totalEarnings r = 13 / 100 \<and>
       snap_totalWithdrawn r = 6 / 100 \<and>
       availableBalance r = 6 / 100 \<and>
       availableBalance r \<noteq> totalEarnings r - snap_totalWithdrawn r"
  by (simp add: getRealTimeIncome_returns[OF subcent_orders] snapshot_fields subcent_income
      delivered_total_def fee_def toFixed2_exact_eighth toFixed2_exact_sixteenth)

text \<open>
  C1, amended. In the snapshot of \<^verbatim>\<open>getRealTimeIncome\<close>, \<open>totalEarnings\<close> is the sum of
  \<^verbatim>\<open>deliveryFee\<close> over the delivered orders, rounded to two decimals; \<open>totalWithdrawn\<close>
  is the persisted running total, rounded; and \<open>availableBalance\<close> is the difference of
  the two figures before their rounding, rounded in its turn. So the balance is computed
  from the raw figures, and between the three rounded fields the equation may fail by a
  cent. This holds in every arithmetic, whatever the rounding does.
\<close>

theorem realtime_balance_of_raw_figures:
  "fst (getAllOrders st) = Inr os \<Longrightarrow>
   \<exists>r. fst (getRealTimeIncome ops now st) = Inr r \<and>
       totalEarnings r = toFixed2 ops (delivered_total os) \<and>
       snap_totalWithdrawn r = toFixed2 ops (totalWithdrawn (fst (getIncomeData now st))) \<and>
       availableBalance r =
         toFixed2 ops (delivered_total os - totalWithdrawn (fst (getIncomeData now st)))"
  by (simp add: getRealTimeIncome_returns snapshot_fields)

theorem realtime_balance_of_raw_figures_witness:
  "fst (getAllOrders scenario_store) = Inr [order_O1, order_O2, order_O3] \<and>
   (\<exists>r. fst (getRealTimeIncome exact scenario_now scenario_store) = Inr r \<and>
        totalEarnings r = 47 / 2 \<and> snap_totalWithdrawn r = 0 \<and> availableBalance r = 47 / 2)"
  using realtime_balance_of_raw_figures[OF scenario_orders, where ops = exact
      and now = scenario_now]
  by (simp add: scenario_orders scenario_income scenario_total toFixed2_exact_47_2)

lemma paid_income: "fst (getIncomeData now paid_store) = paid_doc"
  by (simp add: getIncomeData_eq current_def cache_hit_def paid_store_def)

lemma paid_found:
  "findIndex (\<lambda>w. withdrawalId w = ''WD1728040000000'')
     (withdrawals (fst (getIncomeData now paid_store))) = Some 0"
  by (simp add: paid_income paid_doc_def paid_withdrawal_def)

text \<open>
  C2 holds of the design and fails on the code: \<^verbatim>\<open>updateWithdrawalStatus\<close> adds the amount
  to \<open>totalWithdrawn\<close> whenever the new status is \<^verbatim>\<open>completed\<close>, also when the withdrawal
  already is completed. On a consistent document whose only withdrawal, of 50, is
  completed, completing it again leaves the completed amounts at 50 and raises
  \<open>totalWithdrawn\<close> to 100.
\<close>

theorem completing_twice_counts_twice:
  "ledger_consistent (fst (getIncomeData scenario_now paid_store)) \<and>
   fst (updateWithdrawalStatus scenario_now True paid_store ''WD1728040000000'' ''completed'' []) =
     Some (paid_withdrawal\<lparr>processedAt := Some scenario_now, w_notes := []\<rparr>) \<and>
   completed_total (fst (getIncomeData scenario_now (snd
     (updateWithdrawalStatus scenario_now True paid_store ''WD1728040000000'' ''completed'' [])))) = 50 \<and>
   totalWithdrawn (fst (getIncomeData scenario_now (snd
     (updateWithdrawalStatus scenario_now True paid_store ''WD1728040000000'' ''completed'' [])))) = 100 \<and>
   \<not> ledger_consistent (fst (getIncomeData scenario_now (snd
     (updateWithdrawalStatus scenario_now True paid_store ''WD1728040000000'' ''completed'' []))))"
  by (simp add: updateWithdrawalStatus_found[OF paid_found] paid_income)
     (simp add: paid_doc_def paid_withdrawal_def ledger_consistent_def completed_total_def)

text \<open>
  C3, as stated, fails. The only withdrawal of the document is completed; a call that
  rejects it does not fail: it returns the withdrawal with the status \<^verbatim>\<open>rejected\<close> and a
  new \<open>processedAt\<close>, and the document holds it so.
\<close>

theorem completed_withdrawal_rejected_later:
  "w_status paid_withdrawal = ''completed'' \<and>
   fst (updateWithdrawalStatus scenario_now True paid_store ''WD1728040000000'' ''rejected'' ''reversed'') =
     Some (paid_withdrawal\<lparr>w_status := ''rejected'', processedAt := Some scenario_now,
                           w_notes := ''reversed''\<rparr>) \<and>
   withdrawals (fst (getIncomeData scenario_now (snd
     (updateWithdrawalStatus scenario_now True paid_store ''WD1728040000000'' ''rejected'' ''reversed'')))) =
     [paid_withdrawal\<lparr>w_status := ''rejected'', processedAt := Some scenario_now,
                      w_notes := ''reversed''\<rparr>]"
  by (simp add: updateWithdrawalStatus_found[OF paid_found] paid_income)
     (simp add: paid_doc_def paid_withdrawal_def)

text \<open>
  C3, amended. \<^verbatim>\<open>updateWithdrawalStatus\<close> has no check of the current status. It fails,
  returning \<^verbatim>\<open>null\<close> and leaving the withdrawals as they are, only when no withdrawal has
  the given id. Otherwise the first withdrawal with that id, whatever its status, gets the
  new status, \<open>processedAt = now\<close> and the notes, is returned, and every other
  withdrawal stays as it is.
\<close>

theorem updateWithdrawalStatus_any_status:
  "let doc = fst (getIncomeData now st);
       (result, st') = updateWithdrawalStatus now fs_ok st wid newStatus newNotes;
       doc' = fst (getIncomeData now' st')
   in case findIndex (\<lambda>w. withdrawalId w = wid) (withdrawals doc) of
        None \<Rightarrow> result = None \<and> withdrawals doc' = withdrawals doc
      | Some i \<Rightarrow>
          result = Some ((withdrawals doc ! i)
                      \<lparr>w_status := newStatus, processedAt := Some now, w_notes := newNotes\<rparr>) \<and>
          withdrawals doc' = (withdrawals doc)
             [i := (withdrawals doc ! i)
                      \<lparr>w_status := newStatus, processedAt := Some now, w_notes := newNotes\<rparr>]"
proof (cases "findIndex (\<lambda>w. withdrawalId w = wid) (withdrawals (fst (getIncomeData now st)))")
  case None
  then show ?thesis
    by (simp add: updateWithdrawalStatus_unknown[OF None] Let_def)
       (simp add: getIncomeData_eq split: option.splits)
next
  case (Some i)
  show ?thesis
    using Some
    by (simp add: Let_def case_prod_beta updateWithdrawalStatus_found[OF Some])
qed

theorem updateWithdrawalStatus_any_status_witness:
  "fst (updateWithdrawalStatus scenario_now False paid_store ''WD1728040000000'' ''completed'' ''again'') =
     Some (paid_withdrawal\<lparr>processedAt := Some scenario_now, w_notes := ''again''\<rparr>) \<and>
   fst (updateWithdrawalStatus scenario_now False paid_store ''WD0'' ''completed'' ''again'') = None"
proof -
  have none: "findIndex (\<lambda>w. withdrawalId w = ''WD0'')
     (withdrawals (fst (getIncomeData scenario_now paid_store))) = None"
    by (simp add: paid_income paid_doc_def paid_withdrawal_def)
  from updateWithdrawalStatus_any_status
         [of scenario_now paid_store False "''WD1728040000000''" "''completed''" "''again''" scenario_now]
       updateWithdrawalStatus_any_status
         [of scenario_now paid_store False "''WD0''" "''completed''" "''again''" scenario_now]
  show ?thesis
    unfolding Let_def case_prod_beta paid_found none
    by (simp add: paid_income paid_doc_def paid_withdrawal_def)
qed

lemma shop_orders:
  "fst (getAllOrders shop_store) =
     Inr [\<lparr>orderId = ''O1'', status = ''delivered'', deliveryFee = Some 20000,
           createdAt = 1728036000000, deliveredAt = Some 1728039600000\<rparr>]"
  by (simp add: fst_getAllOrders current_def cache_hit_def orders_of_json_def orders_or_empty_def
      shop_store_def)

lemma shop_income:
  "fst (getIncomeData now shop_store) =
     \<lparr>withdrawals = [], totalWithdrawn = 0, lastUpdated = now\<rparr>"
  by (simp add: getIncomeData_eq current_def cache_hit_def shop_store_def)

lemma shop_orders_after:
  "fst (getAllOrders (snd (submitWithdrawal ops now fs_ok shop_store amt acc))) =
     Inr [\<lparr>orderId = ''O1'', status = ''delivered'', deliveryFee = Some 20000,
           createdAt = 1728036000000, deliveredAt = Some 1728039600000\<rparr>]"
  by (simp add: submitWithdrawal_orders shop_orders)

lemma shop_balance:
  "totalWithdrawn doc = 0 \<Longrightarrow>
   availableBalance (snapshot exact now
     [\<lparr>orderId = ''O1'', status = ''delivered'', deliveryFee = Some 20000,
       createdAt = 1728036000000, deliveredAt = Some 1728039600000\<rparr>] doc) = 20000"
  by (simp add: snapshot_fields delivered_total_def fee_def)

lemma shop_submit:
  "0 < amt \<Longrightarrow> amt \<le> 20000 \<Longrightarrow>
   fst (submitWithdrawal exact now fs_ok shop_store amt acc) =
     Inr (new_withdrawal exact now amt acc)"
  by (simp add: submitWithdrawal_returns[OF shop_orders] shop_balance shop_income)

lemma shop_submit_again:
  "0 < amt \<Longrightarrow> amt \<le> 20000 \<Longrightarrow>
   fst (submitWithdrawal exact now fs_ok
          (snd (submitWithdrawal exact now' fs_ok' shop_store amt' acc')) amt acc) =
     Inr (new_withdrawal exact now amt acc)"
proof -
  assume a: "0 < amt" "amt \<le> 20000"
  have "totalWithdrawn (fst (getIncomeData now
          (snd (submitWithdrawal exact now' fs_ok' shop_store amt' acc')))) = 0"
    by (simp add: submitWithdrawal_totalWithdrawn shop_income)
  then show ?thesis
    using a by (simp add: submitWithdrawal_returns[OF shop_orders_after] shop_balance)
qed

lemma show_scenario_now: "show_int scenario_now = ''1728043200000''"
  by (simp add: scenario_now_def show_int_def show_nat.simps digit_char_def)

text \<open>
  C4 holds of the design and fails on the code in the id. The id is \<^verbatim>\<open>WD\<close> followed by
  the clock's milliseconds, and it is the key by which \<^verbatim>\<open>updateWithdrawalStatus\<close> finds a
  withdrawal; two accepted submissions within one millisecond get the same id, and a
  resolution of that id reaches the first of them only. (The last two lines show a second
  slip: the result of \<^verbatim>\<open>DataStore.write\<close> is not looked at, so that after a failed write
  the withdrawal returned is in no collection.)
\<close>

theorem submitWithdrawal_counterexample:
  "fst (submitWithdrawal exact scenario_now True shop_store 20 ''a'') =
     Inr (new_withdrawal exact scenario_now 20 ''a'') \<and>
   fst (submitWithdrawal exact scenario_now True
          (snd (submitWithdrawal exact scenario_now True shop_store 20 ''a'')) 30 ''b'') =
     Inr (new_withdrawal exact scenario_now 30 ''b'') \<and>
   map withdrawalId (withdrawals (fst (getIncomeData scenario_now
     (snd (submitWithdrawal exact scenario_now True
          (snd (submitWithdrawal exact scenario_now True shop_store 20 ''a'')) 30 ''b''))))) =
     [''WD1728043200000'', ''WD1728043200000''] \<and>
   map accountInfo (filter (\<lambda>w. w_status w = ''completed'')
     (withdrawals (fst (getIncomeData scenario_now
       (snd (updateWithdrawalStatus scenario_now True
         (snd (submitWithdrawal exact scenario_now True
            (snd (submitWithdrawal exact scenario_now True shop_store 20 ''a'')) 30 ''b''))
         ''WD1728043200000'' ''completed'' [])))))) = [''a''] \<and>
   fst (submitWithdrawal exact scenario_now False shop_store 20 ''a'') =
     Inr (new_withdrawal exact scenario_now 20 ''a'') \<and>
   withdrawals (fst (getIncomeData scenario_now
     (snd (submitWithdrawal exact scenario_now False shop_store 20 ''a'')))) = []"
proof -
  let ?st1 = "snd (submitWithdrawal exact scenario_now True shop_store 20 ''a'')"
  let ?st2 = "snd (submitWithdrawal exact scenario_now True ?st1 30 ''b'')"
  have first: "fst (submitWithdrawal exact scenario_now fs_ok shop_store 20 ''a'') =
                 Inr (new_withdrawal exact scenario_now 20 ''a'')" for fs_ok
    by (simp add: shop_submit)
  have second: "fst (submitWithdrawal exact scenario_now True ?st1 30 ''b'') =
     Inr (new_withdrawal exact scenario_now 30 ''b'')"
    by (simp add: shop_submit_again)
  have ws1: "withdrawals (fst (getIncomeData scenario_now ?st1)) =
             [new_withdrawal exact scenario_now 20 ''a'']"
    using submitWithdrawal_accepted[OF first, of scenario_now] by (simp add: shop_income)
  have ws2: "withdrawals (fst (getIncomeData scenario_now ?st2)) =
     [new_withdrawal exact scenario_now 20 ''a'', new_withdrawal exact scenario_now 30 ''b'']"
    using submitWithdrawal_accepted[OF second, of scenario_now] by (simp add: ws1)
  have found: "findIndex (\<lambda>w. withdrawalId w = ''WD1728043200000'')
                 (withdrawals (fst (getIncomeData scenario_now ?st2))) = Some 0"
    by (simp add: ws2 new_withdrawal_def show_scenario_now)
  have resolved: "map accountInfo (filter (\<lambda>w. w_status w = ''completed'')
     (withdrawals (fst (getIncomeData scenario_now
       (snd (updateWithdrawalStatus scenario_now True ?st2
               ''WD1728043200000'' ''completed'' [])))))) = [''a'']"
    by (simp add: updateWithdrawalStatus_found(2)[OF found] ws2 new_withdrawal_def)
  have lost: "withdrawals (fst (getIncomeData scenario_now
     (snd (submitWithdrawal exact scenario_now False shop_store 20 ''a'')))) = []"
    using submitWithdrawal_accepted_state[OF first[of False]]
    by (simp add: getIncomeData_eq current_persist)
       (simp add: current_def loaded_def cache_hit_def shop_store_def)
  show ?thesis
    by (simp add: first second ws2 lost resolved) (simp add: new_withdrawal_def show_scenario_now)
qed

text \<open>
  The outcomes of \<^verbatim>\<open>submitWithdrawal\<close> when the orders can be read, in every
  arithmetic; \<open>balance\<close> is the \<open>availableBalance\<close> of the snapshot taken during the call.
\<close>

lemma submitWithdrawal_outcomes:
  "fst (getAllOrders st) = Inr os \<Longrightarrow>
   (let doc = fst (getIncomeData now st);
        balance = toFixed2 ops (delivered_total os - totalWithdrawn doc);
        (result, st') = submitWithdrawal ops now fs_ok st amt acc;
        doc' = fst (getIncomeData now' st');
        w = \<lparr>withdrawalId = ''WD'' @ show_int now, amount = toFixed2 ops amt, accountInfo = acc,
             w_status = ''pending'', requestedAt = now, processedAt = None, w_notes = []\<rparr>
    in totalWithdrawn doc' = totalWithdrawn doc \<and>
       (amt \<le> 0 \<longrightarrow> result = Inl InvalidAmount \<and> withdrawals doc' = withdrawals doc) \<and>
       (\<not> amt \<le> 0 \<and> balance < amt \<longrightarrow>
          result = Inl InsufficientBalance \<and> withdrawals doc' = withdrawals doc) \<and>
       (\<not> amt \<le> 0 \<and> \<not> balance < amt \<longrightarrow>
          result = Inr w \<and> (fs_ok \<longrightarrow> withdrawals doc' = withdrawals doc @ [w])))"
proof -
  assume o: "fst (getAllOrders st) = Inr os"
  let ?r = "fst (submitWithdrawal ops now fs_ok st amt acc)"
  let ?balance = "toFixed2 ops (delivered_total os - totalWithdrawn (fst (getIncomeData now st)))"
  have res: "?r = (if amt \<le> 0 then Inl InvalidAmount
                   else if ?balance < amt then Inl InsufficientBalance
                   else Inr (new_withdrawal ops now amt acc))"
    by (simp add: submitWithdrawal_returns[OF o] snapshot_fields)
  have rej: "withdrawals (fst (getIncomeData now'
                 (snd (submitWithdrawal ops now fs_ok st amt acc)))) =
             withdrawals (fst (getIncomeData now st))" if "?r = Inl e" for e
    using submitWithdrawal_rejected[OF that, of now'] getIncomeData_clock(1)[of now' st now]
    by simp
  have acc: "withdrawals (fst (getIncomeData now'
                 (snd (submitWithdrawal ops now fs_ok st amt acc)))) =
             withdrawals (fst (getIncomeData now st)) @ [new_withdrawal ops now amt acc]"
    if "?r = Inr w" "fs_ok" for w
    using submitWithdrawal_accepted[of ops now st amt acc w now'] that by simp
  show ?thesis
    unfolding Let_def case_prod_beta new_withdrawal_def[symmetric]
    using res rej acc submitWithdrawal_totalWithdrawn[of now' ops now fs_ok st amt acc]
    by auto
qed

text \<open>
  C8, as stated, fails: the core does not check the bounds. On a balance of 20000 the
  service accepts 9.99 and 10000.01.
\<close>

theorem core_accepts_out_of_bounds:
  "fst (submitWithdrawal exact scenario_now True shop_store (999 / 100) []) =
     Inr (new_withdrawal exact scenario_now (999 / 100) []) \<and>
   fst (submitWithdrawal exact scenario_now True shop_store (1000001 / 100) []) =
     Inr (new_withdrawal exact scenario_now (1000001 / 100) [])"
  by (simp add: shop_submit)

text \<open>
  C8, amended. On the route \<^verbatim>\<open>POST /income/withdraw\<close> the validator placed before the
  controller answers an amount below 10 or above 10000 with status 400, before
  \<^verbatim>\<open>submitWithdrawal\<close> is called and without touching the store; so 9.99 and 10000.01 are
  rejected there. The core itself checks only that the amount is positive and within the
  available balance.
\<close>

theorem withdraw_route_checks_bounds:
  "body_amount body = AmountNumber a \<Longrightarrow> a < literal ops 10 \<or> literal ops 10000 < a \<Longrightarrow>
   \<exists>response. post_income_withdraw ops now fs_ok st body = (Inl response, st) \<and>
              statusCode response = 400"
  by (auto simp: post_income_withdraw_def validateWithdrawalRequest_def)

theorem withdraw_route_checks_bounds_witness:
  "(\<exists>response. post_income_withdraw exact scenario_now True shop_store body_low =
        (Inl response, shop_store) \<and> statusCode response = 400) \<and>
   (\<exists>response. post_income_withdraw exact scenario_now True shop_store body_high =
        (Inl response, shop_store) \<and> statusCode response = 400)"
proof -
  have low: "body_amount body_low = AmountNumber (999 / 100)"
    "(999 / 100 :: rat) < literal exact 10 \<or> literal exact 10000 < (999 / 100 :: rat)"
    by (simp_all add: body_low_def exact_def)
  have high: "body_amount body_high = AmountNumber (1000001 / 100)"
    "(1000001 / 100 :: rat) < literal exact 10 \<or> literal exact 10000 < (1000001 / 100 :: rat)"
    by (simp_all add: body_high_def exact_def)
  show ?thesis
    by (intro conjI withdraw_route_checks_bounds[OF low] withdraw_route_checks_bounds[OF high])
qed

text \<open>
  An amount within the bounds passes the validator and reaches the service: 25.50 on a
  balance of 20000.
\<close>

lemma decimal_places_examples:
  "toString exact (51 / 2) = ''25.5'' \<and> isValidDecimalPlaces exact (51 / 2) 2 \<and>
   toString exact (1 / 8) = ''0.125'' \<and> \<not> isValidDecimalPlaces exact (1 / 8) 2"
  by code_simp

lemma route_accepts_in_bounds:
  "fst (post_income_withdraw exact scenario_now True shop_store
          \<lparr>body_amount = AmountNumber (51 / 2), body_accountInfo = AccountInfoString ''acct''\<rparr>) =
     Inr \<lparr>withdrawalId = ''WD1728043200000'', amount = 51 / 2, accountInfo = ''acct'',
          w_status = ''pending'', requestedAt = scenario_now, processedAt = None, w_notes = []\<rparr>"
proof -
  have r: "toFixed2 exact (51 / 2) = 51 / 2"
    using toFixed2_exact_cents[of 2550] by simp
  have v: "validateWithdrawalRequest exact
             \<lparr>body_amount = AmountNumber (51 / 2), body_accountInfo = AccountInfoString ''acct''\<rparr> =
           Inr (51 / 2, AccountInfoString ''acct'')"
    using decimal_places_examples by (simp add: validateWithdrawalRequest_def r) (simp add: exact_def)
  have s: "fst (submitWithdrawal exact scenario_now True shop_store (51 / 2) ''acct'') =
             Inr (new_withdrawal exact scenario_now (51 / 2) ''acct'')"
    by (simp add: shop_submit)
  show ?thesis
    using s
    by (cases "submitWithdrawal exact scenario_now True shop_store (51 / 2) ''acct''")
       (simp add: post_income_withdraw_def v controller_submitWithdrawal_def new_withdrawal_def r
          show_scenario_now)
qed

lemma fresh_orders:
  "fst (getAllOrders fresh_order_store) =
     Inr [\<lparr>orderId = ''O1'', status = ''delivered'', deliveryFee = Some 15,
           createdAt = 1728036000000, deliveredAt = Some 1728043200000\<rparr>]"
  by (simp add: fst_getAllOrders current_def cache_hit_def orders_of_json_def orders_or_empty_def
      fresh_order_store_def)

text \<open>
  C5 holds of the labels and fails on the code. \<^verbatim>\<open>getLast4Weeks\<close> builds the labels from
  the oldest week to the newest, as the daily and monthly branches build theirs, where an
  order lands under the label of its own date. The weekly branch writes to the slot
  \<open>weekIndex\<close>, not \<open>3 - weekIndex\<close>: an order delivered at the moment of the query has
  index 0 and is counted under \<^verbatim>\<open>Week 1\<close>, the oldest label, and \<^verbatim>\<open>Week 4\<close> stays empty.
\<close>

theorem weekly_newest_in_first_slot:
  "getWeekIndex scenario_now scenario_now = 0 \<and>
   fst (getIncomeTrend_weekly exact scenario_now fresh_order_store) =
     Inr \<lparr>period = ''weekly'', labels = [''Week 1'', ''Week 2'', ''Week 3'', ''Week 4''],
          earnings = [15, 0, 0, 0], orderCounts = [1, 0, 0, 0]\<rparr>"
proof -
  have "getIncomeTrend_weekly exact scenario_now fresh_order_store =
     (Inr \<lparr>period = ''weekly'', labels = [''Week 1'', ''Week 2'', ''Week 3'', ''Week 4''],
          earnings = [15, 0, 0, 0], orderCounts = [1, 0, 0, 0]\<rparr>,
      snd (getAllOrders fresh_order_store))"
    using fresh_orders
    by (cases "getAllOrders fresh_order_store")
       (auto simp: getIncomeTrend_weekly_def getLast4Weeks_eq scenario_now_def weekly_step_def
          getWeekIndex_def effectiveDate_def fee_def add_at_def Let_def replicate_4)
  then show ?thesis by (simp add: getWeekIndex_def)
qed

lemma scenario_today_orders:
  "fst (getAllOrders scenario_store_today) = Inr [order_O1, order_O2, order_O3_today]"
  by (simp add: fst_getAllOrders current_def cache_hit_def orders_of_json_def orders_or_empty_def
      scenario_store_today_def)

lemma scenario_dated_today:
  "dated_today scenario_now order_O1" "\<not> dated_today scenario_now order_O2"
  "\<not> dated_today scenario_now order_O3" "dated_today scenario_now order_O3_today"
  by (simp_all add: dated_today_def effectiveDate_def iso_date_def day_ms_def scenario_now_def
      order_O1_def order_O2_def order_O3_def order_O3_today_def)

lemma scenario_statuses:
  "status order_O1 = ''delivered''" "status order_O2 = ''delivered''"
  "status order_O3 = ''cancelled''" "status order_O3_today = ''cancelled''"
  "\<not> is_ongoing order_O1" "\<not> is_ongoing order_O2" "\<not> is_ongoing order_O3"
  "\<not> is_ongoing order_O3_today"
  "fee order_O1 = 15" "fee order_O2 = 17 / 2"
  by (simp_all add: is_ongoing_def fee_def order_O1_def order_O2_def order_O3_def
      order_O3_today_def)

lemma scenario_statistics:
  "fst (getOrderStatistics exact scenario_now scenario_store) =
     Inr \<lparr>total = 3, ongoing = 0, completed = 2, cancelled = 1,
          stat_totalEarnings = 47 / 2, stat_todayEarnings = 15, todayOrders = 1\<rparr>"
  by (simp add: getOrderStatistics_returns[OF scenario_orders] scenario_dated_today
      scenario_statuses delivered_total_def toFixed2_exact_47_2)

lemma scenario_today_statistics:
  "fst (getOrderStatistics exact scenario_now scenario_store_today) =
     Inr \<lparr>total = 3, ongoing = 0, completed = 2, cancelled = 1,
          stat_totalEarnings = 47 / 2, stat_todayEarnings = 15, todayOrders = 2\<rparr>"
  by (simp add: getOrderStatistics_returns[OF scenario_today_orders] scenario_dated_today
      scenario_statuses delivered_total_def toFixed2_exact_47_2)

text \<open>
  C6, as stated, fails on its scenario. Two of the three orders are delivered, so
  \<open>completed\<close> is 2, not 1. And \<open>todayOrders\<close> counts the orders of every status dated
  today: with the cancelled order created today it is 2, though one order was delivered
  today.
\<close>

theorem statistics_scenario_counterexample:
  "fst (getOrderStatistics exact scenario_now scenario_store) \<noteq>
     Inr \<lparr>total = 3, ongoing = 0, completed = 1, cancelled = 1,
          stat_totalEarnings = 47 / 2, stat_todayEarnings = 15, todayOrders = 1\<rparr> \<and>
   fst (getOrderStatistics exact scenario_now scenario_store) =
     Inr \<lparr>total = 3, ongoing = 0, completed = 2, cancelled = 1,
          stat_totalEarnings = 47 / 2, stat_todayEarnings = 15, todayOrders = 1\<rparr> \<and>
   fst (getOrderStatistics exact scenario_now scenario_store_today) =
     Inr \<lparr>total = 3, ongoing = 0, completed = 2, cancelled = 1,
          stat_totalEarnings = 47 / 2, stat_todayEarnings = 15, todayOrders = 2\<rparr>"
  by (simp add: scenario_statistics scenario_today_statistics)

text \<open>
  C6, amended. \<^verbatim>\<open>getOrderStatistics\<close> returns, from one pass over all orders: \<open>total\<close>, the
  number of orders; \<open>ongoing\<close>, the number with status assigned, picked_up or in_transit;
  \<open>completed\<close>, the number of delivered orders; \<open>cancelled\<close>, the number of cancelled
  ones; \<open>totalEarnings\<close>, the sum of \<^verbatim>\<open>deliveryFee\<close> over the delivered orders;
  \<open>todayEarnings\<close>, that sum over the delivered orders whose \<^verbatim>\<open>deliveredAt\<close>, or
  \<^verbatim>\<open>createdAt\<close> when absent, falls on the current day; and \<open>todayOrders\<close>, the number of
  orders of any status dated so. Each sum is added up in the order of the collection and
  rounded to two decimals at the end. It throws only what \<^verbatim>\<open>getAllOrders\<close> throws. For the
  scenario (delivered 15.00 today, delivered 8.50 ten days ago, cancelled 5.00 created ten
  days ago) the result is total 3, ongoing 0, completed 2, cancelled 1, totalEarnings
  23.50, todayEarnings 15.00, todayOrders 1.
\<close>

theorem statistics_fields:
  "(case fst (getAllOrders st) of
      Inl e \<Rightarrow> fst (getOrderStatistics ops now st) = Inl e
    | Inr os \<Rightarrow>
        fst (getOrderStatistics ops now st) =
          Inr \<lparr>total = length os,
               ongoing = length (filter is_ongoing os),
               completed = length (filter (\<lambda>order. status order = ''delivered'') os),
               cancelled = length (filter (\<lambda>order. status order = ''cancelled'') os),
               stat_totalEarnings = toFixed2 ops (delivered_total os),
               stat_todayEarnings = toFixed2 ops (delivered_total (filter (dated_today now) os)),
               todayOrders = length (filter (dated_today now) os)\<rparr>) \<and>
   fst (getOrderStatistics exact scenario_now scenario_store) =
     Inr \<lparr>total = 3, ongoing = 0, completed = 2, cancelled = 1,
          stat_totalEarnings = 47 / 2, stat_todayEarnings = 15, todayOrders = 1\<rparr>"
  by (cases "fst (getAllOrders st)")
     (simp_all add: getOrderStatistics_throws getOrderStatistics_returns scenario_statistics)

lemma midnight_orders:
  "fst (getAllOrders midnight_store) =
     Inr [\<lparr>orderId = ''A'', status = ''delivered'', deliveryFee = Some 10,
            createdAt = 1728086399999, deliveredAt = Some 1728086399999\<rparr>,
          \<lparr>orderId = ''B'', status = ''delivered'', deliveryFee = Some 10,
            createdAt = 1727481599999, deliveredAt = Some 1727481599999\<rparr>,
          \<lparr>orderId = ''C'', status = ''delivered'', deliveryFee = Some 10,
            createdAt = 1725494399999, deliveredAt = Some 1725494399999\<rparr>]"
  by (simp add: fst_getAllOrders current_def cache_hit_def orders_of_json_def orders_or_empty_def
      midnight_store_def)

lemma midnight_income:
  "fst (getIncomeData now midnight_store) =
     \<lparr>withdrawals = [], totalWithdrawn = 0, lastUpdated = now\<rparr>"
  by (simp add: getIncomeData_eq current_def cache_hit_def midnight_store_def)

lemma midnight_before:
  "fst (getRealTimeIncome exact last_ms midnight_store) =
     Inr \<lparr>riderId = ''rider_001'', totalEarnings = 30, todayEarnings = 10, weekEarnings = 20,
          monthEarnings = 30, snap_totalWithdrawn = 0, availableBalance = 30,
          pendingWithdrawals = 0, snap_lastUpdated = last_ms\<rparr>"
  by (simp add: getRealTimeIncome_returns[OF midnight_orders] midnight_income snapshot_def
      last_ms_def income_step_def effectiveDate_def fee_def iso_date_def day_ms_def Let_def)

lemma midnight_after:
  "fst (getRealTimeIncome exact first_ms midnight_store) =
     Inr \<lparr>riderId = ''rider_001'', totalEarnings = 30, todayEarnings = 0, weekEarnings = 10,
          monthEarnings = 20, snap_totalWithdrawn = 0, availableBalance = 30,
          pendingWithdrawals = 0, snap_lastUpdated = first_ms\<rparr>"
  by (simp add: getRealTimeIncome_returns[OF midnight_orders] midnight_income snapshot_def
      first_ms_def income_step_def effectiveDate_def fee_def iso_date_def day_ms_def Let_def)

text \<open>
  C7, as stated, fails: the snapshot depends on the clock. Two calls one millisecond
  apart, around midnight, with nothing changed in between, differ in \<open>lastUpdated\<close>, in
  \<open>todayEarnings\<close>, in \<open>weekEarnings\<close> and in \<open>monthEarnings\<close>.
\<close>

theorem realtime_income_clock_counterexample:
  "first_ms = last_ms + 1 \<and>
   fst (getRealTimeIncome exact last_ms midnight_store) =
     Inr \<lparr>riderId = ''rider_001'', totalEarnings = 30, todayEarnings = 10, weekEarnings = 20,
          monthEarnings = 30, snap_totalWithdrawn = 0, availableBalance = 30,
          pendingWithdrawals = 0, snap_lastUpdated = last_ms\<rparr> \<and>
   fst (getRealTimeIncome exact first_ms (snd (getRealTimeIncome exact last_ms midnight_store))) =
     Inr \<lparr>riderId = ''rider_001'', totalEarnings = 30, todayEarnings = 0, weekEarnings = 10,
          monthEarnings = 20, snap_totalWithdrawn = 0, availableBalance = 30,
          pendingWithdrawals = 0, snap_lastUpdated = first_ms\<rparr> \<and>
   fst (getRealTimeIncome exact first_ms (snd (getRealTimeIncome exact last_ms midnight_store))) \<noteq>
   fst (getRealTimeIncome exact last_ms midnight_store)"
  by (simp add: getRealTimeIncome_again midnight_before midnight_after)
     (simp add: first_ms_def last_ms_def)

text \<open>
  C7, amended. With no mutation in between, two calls of \<^verbatim>\<open>getRealTimeIncome\<close> agree on
  \<open>riderId\<close>, \<open>totalEarnings\<close>, \<open>totalWithdrawn\<close>, \<open>availableBalance\<close> and
  \<open>pendingWithdrawals\<close>, whatever the clock reads at each, and the second call leaves
  the store as the first left it; when the clock reads the same at both, every field of
  the two snapshots is equal. \<open>lastUpdated\<close> is the clock value of the call, and
  \<open>todayEarnings\<close>, \<open>weekEarnings\<close> and \<open>monthEarnings\<close> are windows that end at it.
  If the first call throws, the second throws the same.
\<close>

theorem getRealTimeIncome_twice:
  "case getRealTimeIncome ops now1 st of
     (Inl e, st1) \<Rightarrow> getRealTimeIncome ops now2 st1 = (Inl e, st1)
   | (Inr r1, st1) \<Rightarrow>
       (\<exists>r2. getRealTimeIncome ops now2 st1 = (Inr r2, st1) \<and>
             riderId r2 = riderId r1 \<and> totalEarnings r2 = totalEarnings r1 \<and>
             snap_totalWithdrawn r2 = snap_totalWithdrawn r1 \<and>
             availableBalance r2 = availableBalance r1 \<and>
             pendingWithdrawals r2 = pendingWithdrawals r1 \<and>
             snap_lastUpdated r2 = now2 \<and>
             (now2 = now1 \<longrightarrow> r2 = r1))"
proof (cases "fst (getAllOrders st)")
  case (Inl e)
  have a: "fst (getAllOrders (snd (getAllOrders st))) = Inl e"
    using Inl by (simp add: getAllOrders_again)
  show ?thesis
    by (simp add: getRealTimeIncome_throws[OF Inl] getRealTimeIncome_throws[OF a]
        getAllOrders_again)
next
  case (Inr os)
  let ?st1 = "\<lparr>rider_orders_json = loaded json_truthy (rider_orders_json st),
               rider_income_json = loaded object_truthy (rider_income_json st)\<rparr>"
  have again: "getRealTimeIncome ops now2 (snd (getRealTimeIncome ops now1 st)) =
               getRealTimeIncome ops now2 st"
    by (rule getRealTimeIncome_again)
  have first: "getRealTimeIncome ops now1 st =
                 (Inr (snapshot ops now1 os (fst (getIncomeData now1 st))), ?st1)"
    by (rule getRealTimeIncome_returns[OF Inr])
  have second: "getRealTimeIncome ops now2 ?st1 =
                 (Inr (snapshot ops now2 os (fst (getIncomeData now2 st))), ?st1)"
    using again unfolding first snd_conv by (simp add: getRealTimeIncome_returns[OF Inr])
  have doc: "withdrawals (fst (getIncomeData now2 st)) = withdrawals (fst (getIncomeData now1 st))"
            "totalWithdrawn (fst (getIncomeData now2 st)) =
               totalWithdrawn (fst (getIncomeData now1 st))"
    by (rule getIncomeData_clock)+
  show ?thesis
    unfolding first prod.case sum.case second
    by (simp add: snapshot_fields doc)
qed

theorem getRealTimeIncome_twice_witness:
  "getRealTimeIncome exact scenario_now (snd (getRealTimeIncome exact scenario_now scenario_store)) =
   getRealTimeIncome exact scenario_now scenario_store \<and>
   (\<exists>r. fst (getRealTimeIncome exact scenario_now scenario_store) = Inr r \<and>
        totalEarnings r = 47 / 2)"
proof -
  have first: "getRealTimeIncome exact scenario_now scenario_store =
     (Inr (snapshot exact scenario_now [order_O1, order_O2, order_O3]
             (fst (getIncomeData scenario_now scenario_store))),
      \<lparr>rider_orders_json = loaded json_truthy (rider_orders_json scenario_store),
       rider_income_json = loaded object_truthy (rider_income_json scenario_store)\<rparr>)"
    by (rule getRealTimeIncome_returns[OF scenario_orders])
  from getRealTimeIncome_twice[where ops = exact and ?now1.0 = scenario_now
      and st = scenario_store and ?now2.0 = scenario_now]
  show ?thesis
    unfolding first prod.case sum.case fst_conv snd_conv
    by (auto simp: snapshot_fields scenario_total toFixed2_exact_47_2)
qed

lemma scenario_sorted:
  "sort_newest_first [order_O1, order_O2, order_O3] = [order_O1, order_O3, order_O2]"
  by (simp add: sort_newest_first_def order_O1_def order_O2_def order_O3_def)

lemma scenario_after_recent:
  "fst (getAllOrders (snd (getRecentOrders scenario_store limit))) =
     Inr [order_O1, order_O3, order_O2]"
  by (simp add: getRecentOrders_state[OF scenario_orders] scenario_sorted)

text \<open>
  C9, as stated, fails. \<^verbatim>\<open>DataStore.read\<close> catches every error: for a file that cannot be
  read or parsed the body of its \<^verbatim>\<open>try\<close> fails, and \<^verbatim>\<open>getAllOrders\<close> returns the empty
  list, as it does for a missing file, and no error. What \<^verbatim>\<open>getAllOrders\<close> does throw is
  the \<^verbatim>\<open>TypeError\<close> of \<^verbatim>\<open>data.orders\<close> when the file holds \<^verbatim>\<open>null\<close>, with the storage
  available. Nor is the order the insertion order once \<^verbatim>\<open>getRecentOrders\<close> has run.
\<close>

theorem getAllOrders_swallows_read_error:
  "DataStore_read_try json_truthy (rider_orders_json unreadable_store)
     (JsonObject \<lparr>orders = Some []\<rparr>) = Inl ReadFailed \<and>
   getAllOrders unreadable_store = (Inr [], unreadable_store) \<and>
   fst (getAllOrders null_store) = Inl TypeError \<and>
   fst (getAllOrders scenario_store) = Inr [order_O1, order_O2, order_O3] \<and>
   fst (getAllOrders (snd (getRecentOrders scenario_store 10))) =
     Inr [order_O1, order_O3, order_O2]"
  by (simp add: scenario_after_recent scenario_orders)
     (simp add: DataStore_read_try_def getAllOrders_def DataStore_read_def cache_hit_def
        unreadable_store_def null_store_def)

text \<open>
  C9, amended. \<^verbatim>\<open>getAllOrders\<close> returns the orders of the collection in the order in
  which the stored array holds them: the array of the cached document when the cache holds
  one, else that of the file, which is cached then; a second call returns the same. A
  missing backing store yields the empty sequence by design default, and so does a
  document without the array. Storage unavailability is no failure mode: for a file that
  cannot be read or parsed the error is logged and swallowed, and the result is the empty
  sequence. The only failure is the \<^verbatim>\<open>TypeError\<close> thrown when the file holds \<^verbatim>\<open>null\<close>.
\<close>

theorem getAllOrders_outcomes:
  "getAllOrders st =
     ((case cache (rider_orders_json st) of
         Some (JsonObject d) \<Rightarrow> Inr (orders_or_empty d)
       | _ \<Rightarrow>
          (case disk (rider_orders_json st) of
             Missing \<Rightarrow> Inr []
           | Unreadable \<Rightarrow> Inr []
           | Content JsonNull \<Rightarrow> Inl TypeError
           | Content JsonFalsy \<Rightarrow> Inr []
           | Content (JsonObject d) \<Rightarrow> Inr (orders_or_empty d))),
      st\<lparr>rider_orders_json := loaded json_truthy (rider_orders_json st)\<rparr>) \<and>
   getAllOrders (snd (getAllOrders st)) = getAllOrders st"
proof -
  have "fst (getAllOrders st) =
     (case cache (rider_orders_json st) of
         Some (JsonObject d) \<Rightarrow> Inr (orders_or_empty d)
       | _ \<Rightarrow>
          (case disk (rider_orders_json st) of
             Missing \<Rightarrow> Inr []
           | Unreadable \<Rightarrow> Inr []
           | Content JsonNull \<Rightarrow> Inl TypeError
           | Content JsonFalsy \<Rightarrow> Inr []
           | Content (JsonObject d) \<Rightarrow> Inr (orders_or_empty d)))"
    by (simp add: fst_getAllOrders current_def cache_hit_def json_truthy_def orders_of_json_def
        split: option.splits json.splits json_file.splits)
  moreover have "snd (getAllOrders st) =
                   st\<lparr>rider_orders_json := loaded json_truthy (rider_orders_json st)\<rparr>"
    by (rule getAllOrders_state)
  ultimately show ?thesis
    unfolding getAllOrders_again by (simp add: prod_eq_iff)
qed

lemma scenario_selection:
  "status_selection ''completed'' [order_O1, order_O3, order_O2] = [order_O1, order_O3, order_O2] \<and>
   status_selection ''ongoing'' [order_O1, order_O3, order_O2] = []"
  by (simp add: status_selection_def is_ongoing_def order_O1_def order_O2_def order_O3_def)

text \<open>
  C10. \<^verbatim>\<open>getRecentOrders\<close> sorts the array it is handed, which is the array of the cached
  document. After a call, \<^verbatim>\<open>getAllOrders\<close> returns the orders of before, the same orders
  as often, stably sorted newest first; \<^verbatim>\<open>getOrdersByStatus\<close> returns the selection of its
  filter from that sorted list, in that order; and both leave the store as
  \<^verbatim>\<open>getRecentOrders\<close> left it, so that every later call sees the same. (When the orders
  cannot be had, the file holding \<^verbatim>\<open>null\<close>, \<^verbatim>\<open>getRecentOrders\<close> throws what
  \<^verbatim>\<open>getAllOrders\<close> throws.)
\<close>

theorem getRecentOrders_reorders_cache:
  "case fst (getAllOrders st) of
     Inl e \<Rightarrow> fst (getRecentOrders st limit) = Inl e
   | Inr os \<Rightarrow>
       fst (getRecentOrders st limit) = Inr (slice0 (sort_newest_first os) limit) \<and>
       getAllOrders (snd (getRecentOrders st limit)) =
         (Inr (sort_newest_first os), snd (getRecentOrders st limit)) \<and>
       getOrdersByStatus (snd (getRecentOrders st limit)) statusFilter =
         (Inr (status_selection statusFilter (sort_newest_first os)),
          snd (getRecentOrders st limit)) \<and>
       mset (sort_newest_first os) = mset os \<and>
       newest_first (sort_newest_first os) \<and>
       (\<forall>t. filter (\<lambda>order. createdAt order = t) (sort_newest_first os) =
            filter (\<lambda>order. createdAt order = t) os)"
proof (cases "fst (getAllOrders st)")
  case (Inl e)
  then show ?thesis by (simp add: getRecentOrders_throws)
next
  case (Inr os)
  have after: "getAllOrders (snd (getRecentOrders st limit)) =
                 (Inr (sort_newest_first os), snd (getRecentOrders st limit))"
    by (rule getRecentOrders_state[OF Inr])
  then have f: "fst (getAllOrders (snd (getRecentOrders st limit))) = Inr (sort_newest_first os)"
    by simp
  have sel: "getOrdersByStatus (snd (getRecentOrders st limit)) statusFilter =
         (Inr (status_selection statusFilter (sort_newest_first os)),
          snd (getRecentOrders st limit))"
    unfolding getOrdersByStatus_returns[OF f] using after by simp
  have m: "mset (sort_newest_first os) = mset os"
    by (simp add: sort_newest_first_def)
  show ?thesis
    unfolding Inr sum.case
    using after sel m
    by (simp add: getRecentOrders_returns[OF Inr] sort_newest_first_sorted
        sort_newest_first_stable)
qed

theorem getRecentOrders_reorders_cache_witness:
  "fst (getAllOrders scenario_store) = Inr [order_O1, order_O2, order_O3] \<and>
   fst (getRecentOrders scenario_store 2) = Inr [order_O1, order_O3] \<and>
   fst (getAllOrders (snd (getRecentOrders scenario_store 2))) =
     Inr [order_O1, order_O3, order_O2] \<and>
   fst (getOrdersByStatus (snd (getRecentOrders scenario_store 2)) ''completed'') =
     Inr [order_O1, order_O3, order_O2] \<and>
   fst (getOrdersByStatus (snd (getRecentOrders scenario_store 2)) ''ongoing'') = Inr []"
proof -
  have cut: "slice0 [order_O1, order_O3, order_O2] 2 = [order_O1, order_O3]"
    by (simp add: slice0_def)
  from getRecentOrders_reorders_cache[where st = scenario_store and limit = 2
         and statusFilter = "''completed''"]
       getRecentOrders_reorders_cache[where st = scenario_store and limit = 2
         and statusFilter = "''ongoing''"]
  show ?thesis
    unfolding scenario_orders sum.case
    by (simp add: scenario_sorted scenario_selection cut)
qed

end
